theory Spec2Isabelle
  imports Complex_Main
begin

section \<open>Wire types (types/itick.ts)\<close>

text \<open>
  The connection status enum and the log levels of \<^verbatim>\<open>types/itick.ts\<close>. The log level
  \<^verbatim>\<open>ERROR\<close> is written \<open>LvError\<close> to keep it apart from the connection status.
\<close>

datatype ConnectionStatus =
  DISCONNECTED | CONNECTING | CONNECTED | AUTHENTICATED | SUBSCRIBED | ERROR

datatype LogLevel = LvError | LvWarn | LvInfo | LvDebug

text \<open>
  The messages that the client and the service hand to their logger, one constructor per
  message (the texts of the source are Chinese); the data logged with a message is left
  out.
\<close>

datatype LogText =
  MsgAuthenticated
  | MsgAuthenticationFailed
  | MsgConnected
  | MsgConnecting
  | MsgConnectionClosed
  | MsgConnectionEstablished
  | MsgConnectionEventConnected
  | MsgConnectionEventDisconnected
  | MsgDataBufferCleared
  | MsgDisconnected
  | MsgDisconnecting
  | MsgErrorResponse
  | MsgFailedToParseMessage
  | MsgFailedToStartService
  | MsgHeartbeatResponse
  | MsgHeartbeatSent
  | MsgHeartbeatStarted
  | MsgHeartbeatStopped
  | MsgHeartbeatTimeout
  | MsgIntentionalDisconnectNoReconnect
  | MsgMaximumReconnectAttemptsReached
  | MsgMaximumReconnectAttemptsReachedStopping
  | MsgNotAuthenticatedYetCannotSubscribe
  | MsgPreparingToReconnect
  | MsgQuoteBufferCleared
  | MsgReconnectFailed
  | MsgReconnected
  | MsgResubscribing
  | MsgServiceIsAlreadyRunning
  | MsgServiceIsNotRunning
  | MsgServiceIsNotRunningCannotResubscribe
  | MsgServiceStarted
  | MsgServiceStopped
  | MsgSignificantPriceChangeDetected
  | MsgSocketError
  | MsgSocketNotReadyCannotSend
  | MsgStartingService
  | MsgStatusChangeAuthenticatedToSubscribed
  | MsgStatusChangeConnectingToAuthFailed
  | MsgStatusChangeConnectingToAuthenticated
  | MsgStatusChangeDisconnectedToFailed
  | MsgStatusChangeSubscribedToDisconnected
  | MsgStoppingService
  | MsgSubscribeRequestSent
  | MsgSubscribed
  | MsgSubscriptionEventSubscribe
  | MsgSubscriptionFailed
  | MsgUnknownDataMessage
  | MsgUnknownMessage

text \<open>
  The numbers of JavaScript are IEEE 754 doubles. A finite double other than negative
  zero is written as its real value; negative zero, the infinities and NaN are values of
  their own. Every number of a JSON frame is such a value.
\<close>

datatype JsNumber = Finite real | NegZero | PosInfinity | NegInfinity | NaN

text \<open>
  The one-letter field names of the source records (\<^verbatim>\<open>s\<close>, \<^verbatim>\<open>t\<close>, \<^verbatim>\<open>k\<close>,
  \<^verbatim>\<open>c\<close>, ...) carry a prefix here: \<open>bar_\<close> for the inner object \<^verbatim>\<open>k\<close> of a kline,
  \<open>kl_\<close> for \<^verbatim>\<open>KlineData\<close>, \<open>q_\<close> for \<^verbatim>\<open>QuoteData\<close>.
\<close>

record Bar =
  bar_tu :: JsNumber
  bar_c :: JsNumber
  bar_t :: JsNumber
  bar_v :: JsNumber
  bar_h :: JsNumber
  bar_l :: JsNumber
  bar_o :: JsNumber

record KlineData =
  kl_s :: string
  kl_t :: JsNumber
  kl_k :: Bar

record QuoteData =
  q_s :: string
  q_ld :: JsNumber
  q_o :: JsNumber
  q_h :: JsNumber
  q_l :: JsNumber
  q_t :: JsNumber
  q_v :: JsNumber
  q_tu :: JsNumber
  q_ts :: JsNumber

text \<open>
  The \<^verbatim>\<open>data\<close> member of an inbound envelope, as \<^verbatim>\<open>handleMessage\<close> tells the shapes
  apart: an object with a member \<^verbatim>\<open>k\<close>, an object without \<^verbatim>\<open>k\<close> whose \<^verbatim>\<open>type\<close> is
  \<^verbatim>\<open>"quote"\<close>, the payload of a pong, any other object, or a truthy primitive (on
  which the operator \<^verbatim>\<open>in\<close> throws).
\<close>

datatype Payload =
  KlinePayload KlineData
  | QuotePayload QuoteData
  | PongPayload "string option"
  | OtherPayload
  | PrimitivePayload

text \<open>
  A parsed inbound frame: each member of the JSON object is present or absent. A
  \<^verbatim>\<open>data\<close> member that is present but falsy (\<^verbatim>\<open>null\<close>) is \<open>None\<close> here, which
  is how both uses in \<^verbatim>\<open>handleMessage\<close> (\<^verbatim>\<open>'data' in message && message.data\<close>) treat it.
\<close>

record WebSocketMessage =
  code :: "int option"
  resAc :: "string option"
  msg :: "string option"
  data :: "Payload option"

datatype Frame = Parsed WebSocketMessage | Malformed

record SubscribeMessage =
  ac :: string
  params :: string
  types :: string

text \<open>An outbound request: a subscribe message, or a ping carrying \<^verbatim>\<open>Date.now()\<close>.\<close>

datatype Outbound = OutSubscribe SubscribeMessage | OutPing nat

section \<open>The WebSocket client (client/ItickWebSocketClient.ts)\<close>

text \<open>
  The runtime objects the client holds handles of are part of the model: the sockets it
  created (a socket is its index in \<open>sockets\<close>, the entry is its \<^verbatim>\<open>readyState\<close>), the
  timers of the event loop that are armed and have not fired or been cleared
  (\<open>timers\<close>, each with its handle, its kind and its delay in milliseconds), the frames
  written to each socket (\<open>sent\<close>), the events emitted to listeners (\<open>emitted\<close>), the
  calls made to the alerting collaborator (\<open>notified\<close>), and the promises returned by
  \<^verbatim>\<open>connect()\<close> that are not settled yet, each with the socket it was made for and
  the code awaiting it (\<open>pending\<close>), and the suspended \<^verbatim>\<open>async\<close> callbacks
  (\<open>suspended\<close>).
\<close>

datatype ReadyState = WS_CONNECTING | WS_OPEN | WS_CLOSING | WS_CLOSED

datatype TimerKind = HeartbeatTick | HeartbeatDeadline | ReconnectTimer

datatype ClientEvent =
  EvReconnected
  | EvDisconnected nat string
  | EvAuthenticated
  | EvAuthFailed WebSocketMessage
  | EvSubscribed
  | EvSubscribeFailed WebSocketMessage
  | EvKlineData KlineData
  | EvQuoteData QuoteData
  | EvMaxReconnectAttemptsReached

datatype Notification =
  ConnectionErrorNotification string nat
  | ReconnectSuccessNotification nat
  | ReconnectFailureNotification string nat
  | HeartbeatTimeoutNotification

text \<open>
  Who awaits a \<^verbatim>\<open>connect()\<close> promise: a caller of the public method, or the callback
  of a reconnect timer (which remembers \<^verbatim>\<open>currentAttempt\<close>).
\<close>

datatype Awaiter = ByCaller | ByReconnect nat

text \<open>
  An \<^verbatim>\<open>async\<close> callback that is suspended at an \<^verbatim>\<open>await\<close> of a notification, and
  what it does when it resumes: the \<^verbatim>\<open>error\<close> handler of a socket rejects the promise
  of \<^verbatim>\<open>connect()\<close>, the \<^verbatim>\<open>catch\<close> block of the reconnect callback decides about the
  next attempt, the heartbeat deadline closes the socket.
\<close>

datatype Continuation =
  AfterConnectionErrorNotification nat string
  | AfterReconnectFailureNotification
  | AfterHeartbeatTimeoutNotification

record ItickWebSocketClient =
  ws :: "nat option"
  status :: ConnectionStatus
  heartbeatInterval :: "nat option"
  reconnectInterval :: "nat option"
  reconnectAttempts :: nat
  maxReconnectAttempts :: nat
  reconnectDelay :: nat
  maxReconnectDelay :: nat
  heartbeatDelay :: nat
  heartbeatTimeout :: "nat option"
  heartbeatTimeoutDelay :: nat
  shouldReconnect :: bool
  sockets :: "ReadyState list"
  timers :: "(nat \<times> TimerKind \<times> nat) list"
  nextTimer :: nat
  sent :: "(nat \<times> Outbound) list"
  emitted :: "ClientEvent list"
  notified :: "Notification list"
  pending :: "(nat \<times> Awaiter) list"
  suspended :: "Continuation list"
  clientLog :: "(LogLevel \<times> LogText) list"

text \<open>The field initialisers and the constructor.\<close>

definition newClient :: ItickWebSocketClient where
  "newClient = \<lparr> ws = None, status = DISCONNECTED, heartbeatInterval = None,
     reconnectInterval = None, reconnectAttempts = 0, maxReconnectAttempts = 5,
     reconnectDelay = 1000, maxReconnectDelay = 30000, heartbeatDelay = 60000,
     heartbeatTimeout = None, heartbeatTimeoutDelay = 10000, shouldReconnect = True,
     sockets = [], timers = [], nextTimer = 0, sent = [], emitted = [], notified = [],
     pending = [], suspended = [], clientLog = [] \<rparr>"

text \<open>
  Logger calls append the level and the message; \<^verbatim>\<open>super.emit\<close> appends to
  \<open>emitted\<close>.
\<close>

definition logC :: "LogLevel \<Rightarrow> LogText \<Rightarrow> ItickWebSocketClient \<Rightarrow> ItickWebSocketClient" where
  "logC lv m c = c\<lparr>clientLog := clientLog c @ [(lv, m)]\<rparr>"

definition emitC :: "ClientEvent \<Rightarrow> ItickWebSocketClient \<Rightarrow> ItickWebSocketClient" where
  "emitC ev c = c\<lparr>emitted := emitted c @ [ev]\<rparr>"

definition notify :: "Notification \<Rightarrow> ItickWebSocketClient \<Rightarrow> ItickWebSocketClient" where
  "notify n c = c\<lparr>notified := notified c @ [n]\<rparr>"

text \<open>
  \<^verbatim>\<open>setTimeout\<close>/\<^verbatim>\<open>setInterval\<close> arm a timer and return a fresh handle;
  \<^verbatim>\<open>clearTimeout\<close>/\<^verbatim>\<open>clearInterval\<close> disarm the timer with that handle, if it is
  still armed.
\<close>

definition setTimer ::
  "TimerKind \<Rightarrow> nat \<Rightarrow> ItickWebSocketClient \<Rightarrow> nat \<times> ItickWebSocketClient" where
  "setTimer kind delay c =
     (nextTimer c,
      c\<lparr>timers := timers c @ [(nextTimer c, kind, delay)], nextTimer := Suc (nextTimer c)\<rparr>)"

definition clearTimer :: "nat \<Rightarrow> ItickWebSocketClient \<Rightarrow> ItickWebSocketClient" where
  "clearTimer h c = c\<lparr>timers := filter (\<lambda>t. fst t \<noteq> h) (timers c)\<rparr>"

text \<open>\<^verbatim>\<open>WebSocket.close()\<close>: a socket that is not closed yet starts closing.\<close>

definition closeSocket :: "nat \<Rightarrow> ItickWebSocketClient \<Rightarrow> ItickWebSocketClient" where
  "closeSocket sid c =
     (if sid < length (sockets c) \<and> sockets c ! sid \<noteq> WS_CLOSED
      then c\<lparr>sockets := (sockets c)[sid := WS_CLOSING]\<rparr> else c)"

definition stopHeartbeat :: "ItickWebSocketClient \<Rightarrow> ItickWebSocketClient" where
  "stopHeartbeat c =
     (let c1 = (case heartbeatInterval c of
                  Some h \<Rightarrow> logC LvInfo MsgHeartbeatStopped
                              ((clearTimer h c)\<lparr>heartbeatInterval := None\<rparr>)
                | None \<Rightarrow> c)
      in case heartbeatTimeout c1 of
           Some h \<Rightarrow> (clearTimer h c1)\<lparr>heartbeatTimeout := None\<rparr>
         | None \<Rightarrow> c1)"

definition startHeartbeat :: "ItickWebSocketClient \<Rightarrow> ItickWebSocketClient" where
  "startHeartbeat c =
     (let c1 = stopHeartbeat c;
          (h, c2) = setTimer HeartbeatTick (heartbeatDelay c1) c1
      in logC LvInfo MsgHeartbeatStarted (c2\<lparr>heartbeatInterval := Some h\<rparr>))"

definition sendMessage :: "Outbound \<Rightarrow> ItickWebSocketClient \<Rightarrow> ItickWebSocketClient" where
  "sendMessage m c =
     (case ws c of
        Some sid \<Rightarrow>
          if sid < length (sockets c) \<and> sockets c ! sid = WS_OPEN
          then c\<lparr>sent := sent c @ [(sid, m)]\<rparr>
          else logC LvError MsgSocketNotReadyCannotSend c
      | None \<Rightarrow> logC LvError MsgSocketNotReadyCannotSend c)"

text \<open>
  \<^verbatim>\<open>Array.prototype.join\<close>: the loop of the language definition, which appends the
  separator before every element but the first.
\<close>

fun joinLoop :: "string \<Rightarrow> string \<Rightarrow> nat \<Rightarrow> string list \<Rightarrow> string" where
  "joinLoop sep r k [] = r"
| "joinLoop sep r k (x # xs) = joinLoop sep ((if 0 < k then r @ sep else r) @ x) (Suc k) xs"

definition join :: "string \<Rightarrow> string list \<Rightarrow> string" where
  "join sep xs = joinLoop sep [] 0 xs"

definition subscribe :: "string list \<Rightarrow> ItickWebSocketClient \<Rightarrow> ItickWebSocketClient" where
  "subscribe symbols c =
     (if status c \<noteq> AUTHENTICATED
      then logC LvError MsgNotAuthenticatedYetCannotSubscribe c
      else logC LvInfo MsgSubscribeRequestSent
             (sendMessage
                (OutSubscribe \<lparr>ac = ''subscribe'', params = join ''$'' symbols, types = ''quote''\<rparr>)
                c))"

definition sendHeartbeat :: "nat \<Rightarrow> ItickWebSocketClient \<Rightarrow> ItickWebSocketClient" where
  "sendHeartbeat now c =
     (let c1 = logC LvDebug MsgHeartbeatSent (sendMessage (OutPing now) c);
          (h, c2) = setTimer HeartbeatDeadline (heartbeatTimeoutDelay c1) c1
      in c2\<lparr>heartbeatTimeout := Some h\<rparr>)"

text \<open>
  \<^verbatim>\<open>scheduleReconnect\<close>: the counter is incremented first, the delay is computed from
  the incremented counter, and the handle of the new timer overwrites
  \<^verbatim>\<open>reconnectInterval\<close>.
\<close>

definition scheduleReconnect :: "ItickWebSocketClient \<Rightarrow> ItickWebSocketClient" where
  "scheduleReconnect c =
     (let c1 = c\<lparr>reconnectAttempts := reconnectAttempts c + 1\<rparr>;
          delay = min (reconnectDelay c1 * 2 ^ (reconnectAttempts c1 - 1)) (maxReconnectDelay c1);
          c2 = logC LvInfo MsgPreparingToReconnect c1;
          (h, c3) = setTimer ReconnectTimer delay c2
      in c3\<lparr>reconnectInterval := Some h\<rparr>)"

text \<open>
  The older copy of the client in the repository computes the delay without the cap.
\<close>

definition scheduleReconnectOld :: "ItickWebSocketClient \<Rightarrow> ItickWebSocketClient" where
  "scheduleReconnectOld c =
     (let c1 = c\<lparr>reconnectAttempts := reconnectAttempts c + 1\<rparr>;
          delay = reconnectDelay c1 * 2 ^ (reconnectAttempts c1 - 1);
          c2 = logC LvInfo MsgPreparingToReconnect c1;
          (h, c3) = setTimer ReconnectTimer delay c2
      in c3\<lparr>reconnectInterval := Some h\<rparr>)"

text \<open>The delay of the armed timer that \<^verbatim>\<open>reconnectInterval\<close> refers to.\<close>

definition armedReconnectDelay :: "ItickWebSocketClient \<Rightarrow> nat option" where
  "armedReconnectDelay c =
     (case reconnectInterval c of
        None \<Rightarrow> None
      | Some h \<Rightarrow> map_option snd (map_of (timers c) h))"

text \<open>
  The synchronous part of \<^verbatim>\<open>connect()\<close>: a new socket is created and becomes
  \<^verbatim>\<open>this.ws\<close>; the socket \<^verbatim>\<open>this.ws\<close> referred to before is not closed. The promise
  stays pending until the socket reports \<^verbatim>\<open>open\<close> or \<^verbatim>\<open>error\<close>.
\<close>

definition connect :: "Awaiter \<Rightarrow> ItickWebSocketClient \<Rightarrow> ItickWebSocketClient" where
  "connect aw c =
     (let c1 = logC LvInfo MsgConnecting c;
          c2 = c1\<lparr>status := CONNECTING\<rparr>;
          c3 = c2\<lparr>shouldReconnect := True\<rparr>;
          sid = length (sockets c3)
      in c3\<lparr>sockets := sockets c3 @ [WS_CONNECTING], ws := Some sid,
            pending := pending c3 @ [(sid, aw)]\<rparr>)"

text \<open>
  \<^verbatim>\<open>resolve\<close>/\<^verbatim>\<open>reject\<close> of the promise made for a socket: the awaiter, if the promise
  was still pending; a settled promise ignores later calls.
\<close>

definition settle :: "nat \<Rightarrow> ItickWebSocketClient \<Rightarrow> Awaiter option \<times> ItickWebSocketClient" where
  "settle sid c = (map_of (pending c) sid, c\<lparr>pending := filter (\<lambda>p. fst p \<noteq> sid) (pending c)\<rparr>)"

definition suspend :: "Continuation \<Rightarrow> ItickWebSocketClient \<Rightarrow> ItickWebSocketClient" where
  "suspend k c = c\<lparr>suspended := suspended c @ [k]\<rparr>"

text \<open>
  The \<^verbatim>\<open>open\<close> handler. When the promise it resolves is awaited by a reconnect
  callback, that callback goes on after its \<^verbatim>\<open>await this.connect()\<close>.
\<close>

definition onOpen :: "nat \<Rightarrow> ItickWebSocketClient \<Rightarrow> ItickWebSocketClient" where
  "onOpen sid c =
     (let isReconnect = (0 < reconnectAttempts c);
          c1 = logC LvInfo MsgConnectionEstablished c;
          c2 = c1\<lparr>status := CONNECTED\<rparr>;
          c3 = (if isReconnect then emitC EvReconnected c2 else c2);
          c4 = c3\<lparr>reconnectAttempts := 0\<rparr>;
          (aw, c5) = settle sid c4
      in case aw of
           Some (ByReconnect currentAttempt) \<Rightarrow>
             notify (ReconnectSuccessNotification currentAttempt) (logC LvInfo MsgReconnected c5)
         | _ \<Rightarrow> c5)"

text \<open>
  The \<^verbatim>\<open>error\<close> handler up to its \<^verbatim>\<open>await\<close>, and its rest: \<^verbatim>\<open>reject(error)\<close>, which
  takes a reconnect callback into its \<^verbatim>\<open>catch\<close> block, up to the \<^verbatim>\<open>await\<close> there.
\<close>

definition onError :: "nat \<Rightarrow> string \<Rightarrow> ItickWebSocketClient \<Rightarrow> ItickWebSocketClient" where
  "onError sid err c =
     (let c1 = logC LvError MsgSocketError c;
          c2 = c1\<lparr>status := ERROR\<rparr>;
          c3 = notify (ConnectionErrorNotification err (reconnectAttempts c2)) c2
      in suspend (AfterConnectionErrorNotification sid err) c3)"

definition rejectConnect :: "nat \<Rightarrow> string \<Rightarrow> ItickWebSocketClient \<Rightarrow> ItickWebSocketClient" where
  "rejectConnect sid err c =
     (let (aw, c1) = settle sid c
      in case aw of
           Some (ByReconnect currentAttempt) \<Rightarrow>
             suspend AfterReconnectFailureNotification
               (notify (ReconnectFailureNotification err (reconnectAttempts c1))
                  (logC LvError MsgReconnectFailed c1))
         | _ \<Rightarrow> c1)"

text \<open>The rest of the \<^verbatim>\<open>catch\<close> block of the reconnect callback.\<close>

definition afterReconnectFailure :: "ItickWebSocketClient \<Rightarrow> ItickWebSocketClient" where
  "afterReconnectFailure c =
     (if reconnectAttempts c < maxReconnectAttempts c then scheduleReconnect c
      else emitC EvMaxReconnectAttemptsReached
             (logC LvError MsgMaximumReconnectAttemptsReached c))"

text \<open>The \<^verbatim>\<open>close\<close> handler.\<close>

definition onClose :: "nat \<Rightarrow> string \<Rightarrow> ItickWebSocketClient \<Rightarrow> ItickWebSocketClient" where
  "onClose cd reason c =
     (let c1 = logC LvWarn MsgConnectionClosed c;
          c2 = c1\<lparr>status := DISCONNECTED\<rparr>;
          c3 = stopHeartbeat c2;
          c4 = emitC (EvDisconnected cd reason) c3
      in if shouldReconnect c4 \<and> reconnectAttempts c4 < maxReconnectAttempts c4
         then scheduleReconnect c4
         else if \<not> shouldReconnect c4
         then logC LvInfo MsgIntentionalDisconnectNoReconnect c4
         else c4)"

definition handleAuthResponse :: "WebSocketMessage \<Rightarrow> ItickWebSocketClient \<Rightarrow> ItickWebSocketClient" where
  "handleAuthResponse response c =
     (if msg response = Some ''authenticated''
      then emitC EvAuthenticated ((logC LvInfo MsgAuthenticated c)\<lparr>status := AUTHENTICATED\<rparr>)
      else emitC (EvAuthFailed response)
             ((logC LvError MsgAuthenticationFailed c)\<lparr>status := ERROR\<rparr>))"

definition handleSubscribeResponse ::
  "WebSocketMessage \<Rightarrow> ItickWebSocketClient \<Rightarrow> ItickWebSocketClient" where
  "handleSubscribeResponse response c =
     (if msg response = Some ''subscribe Successfully''
      then emitC EvSubscribed
             (startHeartbeat ((logC LvInfo MsgSubscribed c)\<lparr>status := SUBSCRIBED\<rparr>))
      else emitC (EvSubscribeFailed response) (logC LvError MsgSubscriptionFailed c))"

text \<open>
  The client's \<^verbatim>\<open>handleKlineData\<close> and \<^verbatim>\<open>handleQuoteData\<close>; the suffix keeps them apart
  from the methods of the same names of the service.
\<close>

definition handleKlineDataC :: "KlineData \<Rightarrow> ItickWebSocketClient \<Rightarrow> ItickWebSocketClient" where
  "handleKlineDataC klineData c = emitC (EvKlineData klineData) c"

definition handleQuoteDataC :: "QuoteData \<Rightarrow> ItickWebSocketClient \<Rightarrow> ItickWebSocketClient" where
  "handleQuoteDataC quoteData c = emitC (EvQuoteData quoteData) c"

text \<open>Both branches of the final \<^verbatim>\<open>if\<close> of \<^verbatim>\<open>handlePongResponse\<close> log at debug level.\<close>

definition handlePongResponse :: "WebSocketMessage \<Rightarrow> ItickWebSocketClient \<Rightarrow> ItickWebSocketClient" where
  "handlePongResponse response c =
     (let c1 = (case heartbeatTimeout c of
                  Some h \<Rightarrow> (clearTimer h c)\<lparr>heartbeatTimeout := None\<rparr>
                | None \<Rightarrow> c)
      in logC LvDebug MsgHeartbeatResponse c1)"

definition handleMessage :: "WebSocketMessage \<Rightarrow> ItickWebSocketClient \<Rightarrow> ItickWebSocketClient" where
  "handleMessage message c =
     (case code message of
        Some cd \<Rightarrow>
          if cd = 1 then
            (case resAc message of
               Some a \<Rightarrow>
                 if a = ''auth'' then handleAuthResponse message c
                 else if a = ''subscribe'' then handleSubscribeResponse message c
                 else if a = ''pong'' then handlePongResponse message c
                 else c
             | None \<Rightarrow>
                 (case data message of
                    Some (KlinePayload d) \<Rightarrow> handleKlineDataC d c
                  | Some (QuotePayload d) \<Rightarrow> handleQuoteDataC d c
                  | Some PrimitivePayload \<Rightarrow> logC LvError MsgFailedToParseMessage c
                  | Some _ \<Rightarrow> logC LvWarn MsgUnknownDataMessage c
                  | None \<Rightarrow> logC LvInfo MsgConnected c))
          else if cd = 0 then logC LvWarn MsgErrorResponse c
          else logC LvWarn MsgUnknownMessage c
      | None \<Rightarrow>
          if resAc message = Some ''pong'' then handlePongResponse message c
          else logC LvWarn MsgUnknownMessage c)"

text \<open>The \<^verbatim>\<open>message\<close> handler: a frame that does not parse is logged and dropped.\<close>

definition onMessage :: "Frame \<Rightarrow> ItickWebSocketClient \<Rightarrow> ItickWebSocketClient" where
  "onMessage frame c =
     (case frame of
        Malformed \<Rightarrow> logC LvError MsgFailedToParseMessage c
      | Parsed message \<Rightarrow> handleMessage message c)"

definition disconnect :: "ItickWebSocketClient \<Rightarrow> ItickWebSocketClient" where
  "disconnect c =
     (let c1 = logC LvInfo MsgDisconnecting c;
          c2 = c1\<lparr>shouldReconnect := False\<rparr>;
          c3 = stopHeartbeat c2;
          c4 = (case reconnectInterval c3 of
                  Some h \<Rightarrow> (clearTimer h c3)\<lparr>reconnectInterval := None\<rparr>
                | None \<Rightarrow> c3);
          c5 = (case ws c4 of
                  Some sid \<Rightarrow> (closeSocket sid c4)\<lparr>ws := None\<rparr>
                | None \<Rightarrow> c4);
          c6 = c5\<lparr>status := DISCONNECTED\<rparr>
      in logC LvInfo MsgDisconnected c6)"

definition getStatus :: "ItickWebSocketClient \<Rightarrow> ConnectionStatus" where
  "getStatus c = status c"

definition isConnected :: "ItickWebSocketClient \<Rightarrow> bool" where
  "isConnected c = (status c = SUBSCRIBED)"

text \<open>
  A timer of the event loop fires (\<open>now\<close> is the clock reading): nothing happens unless
  it is still armed; a timeout is disarmed by firing, an interval stays armed. The
  reconnect callback calls \<^verbatim>\<open>connect()\<close> and awaits it; the heartbeat deadline logs,
  notifies and suspends.
\<close>

definition fireTimer :: "nat \<Rightarrow> nat \<Rightarrow> ItickWebSocketClient \<Rightarrow> ItickWebSocketClient" where
  "fireTimer h now c =
     (case map_of (timers c) h of
        None \<Rightarrow> c
      | Some (ReconnectTimer, d) \<Rightarrow>
          (let c1 = clearTimer h c
           in connect (ByReconnect (reconnectAttempts c1)) c1)
      | Some (HeartbeatTick, d) \<Rightarrow> sendHeartbeat now c
      | Some (HeartbeatDeadline, d) \<Rightarrow>
          (let c1 = clearTimer h c
           in suspend AfterHeartbeatTimeoutNotification
                (notify HeartbeatTimeoutNotification (logC LvError MsgHeartbeatTimeout c1))))"

text \<open>The \<open>i\<close>-th suspended callback resumes.\<close>

definition resume :: "nat \<Rightarrow> ItickWebSocketClient \<Rightarrow> ItickWebSocketClient" where
  "resume i c =
     (if i < length (suspended c) then
        (let c1 = c\<lparr>suspended := take i (suspended c) @ drop (Suc i) (suspended c)\<rparr>
         in case suspended c ! i of
              AfterConnectionErrorNotification sid err \<Rightarrow> rejectConnect sid err c1
            | AfterReconnectFailureNotification \<Rightarrow> afterReconnectFailure c1
            | AfterHeartbeatTimeoutNotification \<Rightarrow>
                (case ws c1 of Some sid \<Rightarrow> closeSocket sid c1 | None \<Rightarrow> c1))
      else c)"

text \<open>
  What the event loop delivers to the client: the events of a socket, a timer that
  fires, a suspended callback that resumes. The socket changes its \<^verbatim>\<open>readyState\<close>
  before it reports \<^verbatim>\<open>open\<close> or \<^verbatim>\<open>close\<close>.
\<close>

datatype ClientInput =
  WsOpen nat
  | WsMessage nat Frame
  | WsError nat string
  | WsClose nat nat string
  | TimerFired nat nat
  | Resumed nat

definition clientStep :: "ClientInput \<Rightarrow> ItickWebSocketClient \<Rightarrow> ItickWebSocketClient" where
  "clientStep inp c =
     (case inp of
        WsOpen sid \<Rightarrow> onOpen sid (c\<lparr>sockets := (sockets c)[sid := WS_OPEN]\<rparr>)
      | WsMessage sid frame \<Rightarrow> onMessage frame c
      | WsError sid err \<Rightarrow> onError sid err c
      | WsClose sid cd reason \<Rightarrow> onClose cd reason (c\<lparr>sockets := (sockets c)[sid := WS_CLOSED]\<rparr>)
      | TimerFired h now \<Rightarrow> fireTimer h now c
      | Resumed i \<Rightarrow> resume i c)"

section \<open>Double arithmetic\<close>

text \<open>
  \<open>pow2 e\<close> is \<open>2\<close> to the power \<open>e\<close> for an integer \<open>e\<close>. \<open>binade n a\<close> is the
  exponent \<open>k\<close> with \<open>2 ^ k \<le> a < 2 ^ (k + 1)\<close> of a positive \<open>a\<close>, found in at most
  \<open>n\<close> halvings or doublings; \<open>nearestEven\<close> rounds a real to the nearest integer, a
  tie to the even one.
\<close>

definition pow2 :: "int \<Rightarrow> real" where
  "pow2 e = (if 0 \<le> e then 2 ^ nat e else 1 / 2 ^ nat (- e))"

fun binade :: "nat \<Rightarrow> real \<Rightarrow> int" where
  "binade 0 a = 0"
| "binade (Suc n) a =
     (if 2 \<le> a then binade n (a / 2) + 1 else if a < 1 then binade n (2 * a) - 1 else 0)"

definition nearestEven :: "real \<Rightarrow> int" where
  "nearestEven y =
     (if y - of_int \<lfloor>y\<rfloor> < 1 / 2 then \<lfloor>y\<rfloor>
      else if 1 / 2 < y - of_int \<lfloor>y\<rfloor> then \<lfloor>y\<rfloor> + 1
      else if even \<lfloor>y\<rfloor> then \<lfloor>y\<rfloor> else \<lfloor>y\<rfloor> + 1)"

text \<open>
  The doubles near a positive \<open>a\<close> are the multiples of \<open>pow2 (quantum a)\<close>: the
  significand has 53 bits, and the least exponent of a quantum is \<open>-1074\<close> (gradual
  underflow). The 1200 steps of \<open>binade\<close> reach every \<open>a\<close> from \<open>2 ^ -1200\<close> to
  \<open>2 ^ 1200\<close>; below, the quantum is \<open>2 ^ -1074\<close> anyway, and above, the result
  overflows anyway.
\<close>

definition quantum :: "real \<Rightarrow> int" where
  "quantum a = max (- 1074) (binade 1200 a - 52)"

text \<open>
  Rounding of an exact result to the nearest double, ties to even: a result of
  magnitude \<open>2 ^ 1024\<close> or more after rounding is an infinity, a result that rounds to
  zero keeps its sign. This is also how a decimal literal of the source or of a JSON
  frame becomes a double.
\<close>

definition roundDouble :: "real \<Rightarrow> JsNumber" where
  "roundDouble x =
     (if x = 0 then Finite 0
      else if pow2 1024 \<le> of_int (nearestEven (\<bar>x\<bar> / pow2 (quantum \<bar>x\<bar>))) * pow2 (quantum \<bar>x\<bar>)
      then (if x < 0 then NegInfinity else PosInfinity)
      else if nearestEven (\<bar>x\<bar> / pow2 (quantum \<bar>x\<bar>)) = 0
      then (if x < 0 then NegZero else Finite 0)
      else Finite ((if x < 0 then - 1 else 1)
                   * (of_int (nearestEven (\<bar>x\<bar> / pow2 (quantum \<bar>x\<bar>))) * pow2 (quantum \<bar>x\<bar>))))"

fun jsValue :: "JsNumber \<Rightarrow> real" where
  "jsValue (Finite r) = r"
| "jsValue _ = 0"

fun jsFinite :: "JsNumber \<Rightarrow> bool" where
  "jsFinite (Finite r) = True"
| "jsFinite NegZero = True"
| "jsFinite _ = False"

fun jsZero :: "JsNumber \<Rightarrow> bool" where
  "jsZero (Finite r) = (r = 0)"
| "jsZero NegZero = True"
| "jsZero _ = False"

text \<open>The sign bit.\<close>

fun jsNegative :: "JsNumber \<Rightarrow> bool" where
  "jsNegative (Finite r) = (r < 0)"
| "jsNegative NegZero = True"
| "jsNegative NegInfinity = True"
| "jsNegative _ = False"

definition signedZero :: "bool \<Rightarrow> JsNumber" where
  "signedZero neg = (if neg then NegZero else Finite 0)"

definition signedInfinity :: "bool \<Rightarrow> JsNumber" where
  "signedInfinity neg = (if neg then NegInfinity else PosInfinity)"

text \<open>
  The operators \<^verbatim>\<open>-\<close>, \<^verbatim>\<open>/\<close>, \<^verbatim>\<open>*\<close> and \<^verbatim>\<open>>\<close> and \<^verbatim>\<open>Math.abs\<close> on doubles. An exact
  difference of zero is positive zero, unless negative zero minus positive zero.
\<close>

definition jsMinus :: "JsNumber \<Rightarrow> JsNumber \<Rightarrow> JsNumber" where
  "jsMinus a b =
     (if a = NaN \<or> b = NaN then NaN
      else if a = PosInfinity then (if b = PosInfinity then NaN else PosInfinity)
      else if a = NegInfinity then (if b = NegInfinity then NaN else NegInfinity)
      else if b = PosInfinity then NegInfinity
      else if b = NegInfinity then PosInfinity
      else if jsValue a - jsValue b = 0
      then (if a = NegZero \<and> b = Finite 0 then NegZero else Finite 0)
      else roundDouble (jsValue a - jsValue b))"

definition jsDivide :: "JsNumber \<Rightarrow> JsNumber \<Rightarrow> JsNumber" where
  "jsDivide a b =
     (if a = NaN \<or> b = NaN then NaN
      else if \<not> jsFinite a
      then (if \<not> jsFinite b then NaN else signedInfinity (jsNegative a \<noteq> jsNegative b))
      else if \<not> jsFinite b then signedZero (jsNegative a \<noteq> jsNegative b)
      else if jsZero b
      then (if jsZero a then NaN else signedInfinity (jsNegative a \<noteq> jsNegative b))
      else if jsZero a then signedZero (jsNegative a \<noteq> jsNegative b)
      else roundDouble (jsValue a / jsValue b))"

definition jsTimes :: "JsNumber \<Rightarrow> JsNumber \<Rightarrow> JsNumber" where
  "jsTimes a b =
     (if a = NaN \<or> b = NaN then NaN
      else if \<not> jsFinite a \<or> \<not> jsFinite b
      then (if jsZero a \<or> jsZero b then NaN
            else signedInfinity (jsNegative a \<noteq> jsNegative b))
      else if jsZero a \<or> jsZero b then signedZero (jsNegative a \<noteq> jsNegative b)
      else roundDouble (jsValue a * jsValue b))"

definition jsAbs :: "JsNumber \<Rightarrow> JsNumber" where
  "jsAbs x =
     (case x of Finite r \<Rightarrow> Finite \<bar>r\<bar> | NegZero \<Rightarrow> Finite 0 | PosInfinity \<Rightarrow> PosInfinity
      | NegInfinity \<Rightarrow> PosInfinity | NaN \<Rightarrow> NaN)"

definition jsGreater :: "JsNumber \<Rightarrow> JsNumber \<Rightarrow> bool" where
  "jsGreater a b =
     (if a = NaN \<or> b = NaN then False
      else if a = PosInfinity then b \<noteq> PosInfinity
      else if a = NegInfinity then False
      else if b = PosInfinity then False
      else if b = NegInfinity then True
      else jsValue b < jsValue a)"

section \<open>The service (service/ItickService.ts)\<close>

record PriceChange =
  symbol :: string
  previousPrice :: JsNumber
  currentPrice :: JsNumber
  change :: JsNumber
  changePercent :: JsNumber

record Processed =
  p_symbol :: string
  p_price :: JsNumber
  p_volume :: JsNumber
  p_timestamp :: JsNumber

datatype ServiceEvent =
  SvAuthenticated
  | SvAuthFailed WebSocketMessage
  | SvSubscribed
  | SvSubscribeFailed WebSocketMessage
  | SvKlineData KlineData
  | SvQuoteData QuoteData
  | SvDisconnected nat string
  | SvMaxReconnectAttemptsReached
  | SvStarted
  | SvStopped
  | SvSignificantPriceChange PriceChange
  | SvDataProcessed Processed
  | SvQuoteDataProcessed Processed

text \<open>
  Symbol lists are JavaScript arrays, which the service stores and returns by
  reference. The model keeps the arrays of strings of the heap in \<open>arrays\<close>; a
  reference is an index into it, and \<^verbatim>\<open>subscribedSymbols\<close> holds a reference. The
  two history buffers are referred to by the service alone and are held by value.
\<close>

record ItickService =
  client :: ItickWebSocketClient
  subscribedSymbols :: nat
  isRunning :: bool
  dataBuffer :: "KlineData list"
  quoteBuffer :: "QuoteData list"
  maxBufferSize :: nat
  arrays :: "string list list"
  serviceEmitted :: "ServiceEvent list"
  serviceLog :: "(LogLevel \<times> LogText) list"

text \<open>The field initialisers and the constructor; \<^verbatim>\<open>[]\<close> allocates an empty array.\<close>

definition newService :: ItickService where
  "newService = \<lparr> client = newClient, subscribedSymbols = 0, isRunning = False,
     dataBuffer = [], quoteBuffer = [], maxBufferSize = 1000, arrays = [[]],
     serviceEmitted = [], serviceLog = [] \<rparr>"

definition logS :: "LogLevel \<Rightarrow> LogText \<Rightarrow> ItickService \<Rightarrow> ItickService" where
  "logS lv m s = s\<lparr>serviceLog := serviceLog s @ [(lv, m)]\<rparr>"

definition emitS :: "ServiceEvent \<Rightarrow> ItickService \<Rightarrow> ItickService" where
  "emitS ev s = s\<lparr>serviceEmitted := serviceEmitted s @ [ev]\<rparr>"

text \<open>
  What code outside the service can do to the heap: allocate an array, and change the
  content of an array it holds a reference of in any way (\<open>f\<close>).
\<close>

definition allocArray :: "string list \<Rightarrow> ItickService \<Rightarrow> nat \<times> ItickService" where
  "allocArray xs s = (length (arrays s), s\<lparr>arrays := arrays s @ [xs]\<rparr>)"

definition mutateArray :: "nat \<Rightarrow> (string list \<Rightarrow> string list) \<Rightarrow> ItickService \<Rightarrow> ItickService" where
  "mutateArray r f s = s\<lparr>arrays := (arrays s)[r := f (arrays s ! r)]\<rparr>"

text \<open>The outcome of a call of an \<^verbatim>\<open>async\<close> method so far.\<close>

datatype ServiceError = TransportError string | AuthenticationTimeout | AuthenticationFailed string

datatype Completion = Resolved | Rejected ServiceError | Awaiting

definition stop :: "ItickService \<Rightarrow> ItickService" where
  "stop s =
     (if \<not> isRunning s then logS LvWarn MsgServiceIsNotRunning s
      else
        (let s1 = logS LvInfo MsgStoppingService s;
             s2 = s1\<lparr>isRunning := False\<rparr>;
             s3 = s2\<lparr>client := disconnect (client s2)\<rparr>;
             s4 = logS LvInfo MsgConnectionEventDisconnected s3;
             s5 = s4\<lparr>dataBuffer := []\<rparr>;
             s6 = s5\<lparr>quoteBuffer := []\<rparr>;
             s7 = logS LvInfo MsgServiceStopped s6
         in emitS SvStopped s7))"

text \<open>
  \<^verbatim>\<open>start\<close> is an \<^verbatim>\<open>async\<close> method with two \<^verbatim>\<open>await\<close>s, so it runs in segments:
  \<open>start\<close> up to the \<^verbatim>\<open>await\<close> of \<^verbatim>\<open>connect()\<close>; \<open>startConnected\<close> when that promise
  resolves, up to the \<^verbatim>\<open>await\<close> of \<^verbatim>\<open>waitForAuthentication()\<close> (which arms a timeout of
  ten seconds and waits for the client's \<^verbatim>\<open>authenticated\<close> or \<^verbatim>\<open>authFailed\<close>);
  \<open>startAuthenticated\<close> when that one resolves; \<open>startFailed\<close>, the \<^verbatim>\<open>catch\<close> block,
  when either promise rejects. The argument is a reference to the caller's array.
\<close>

definition start :: "nat \<Rightarrow> ItickService \<Rightarrow> Completion \<times> ItickService" where
  "start symbols s =
     (if isRunning s then (Resolved, logS LvWarn MsgServiceIsAlreadyRunning s)
      else
        (let s1 = logS LvInfo MsgStartingService s;
             s2 = s1\<lparr>isRunning := True\<rparr>;
             s3 = s2\<lparr>subscribedSymbols := symbols\<rparr>;
             s4 = s3\<lparr>client := connect ByCaller (client s3)\<rparr>
         in (Awaiting, s4)))"

definition startConnected :: "ItickService \<Rightarrow> Completion \<times> ItickService" where
  "startConnected s = (Awaiting, logS LvInfo MsgConnectionEventConnected s)"

definition startAuthenticated :: "nat \<Rightarrow> ItickService \<Rightarrow> Completion \<times> ItickService" where
  "startAuthenticated symbols s =
     (let s1 = s\<lparr>client := subscribe (arrays s ! symbols) (client s)\<rparr>;
          s2 = logS LvInfo MsgSubscriptionEventSubscribe s1;
          s3 = logS LvInfo MsgServiceStarted s2
      in (Resolved, emitS SvStarted s3))"

definition startFailed :: "ServiceError \<Rightarrow> ItickService \<Rightarrow> Completion \<times> ItickService" where
  "startFailed err s =
     (let s1 = logS LvError MsgFailedToStartService s;
          s2 = s1\<lparr>isRunning := False\<rparr>
      in (Rejected err, s2))"

definition addToBuffer :: "KlineData \<Rightarrow> ItickService \<Rightarrow> ItickService" where
  "addToBuffer d s =
     (let s1 = s\<lparr>dataBuffer := dataBuffer s @ [d]\<rparr>
      in if maxBufferSize s1 < length (dataBuffer s1)
         then s1\<lparr>dataBuffer := tl (dataBuffer s1)\<rparr>
         else s1)"

definition addToQuoteBuffer :: "QuoteData \<Rightarrow> ItickService \<Rightarrow> ItickService" where
  "addToQuoteBuffer d s =
     (let s1 = s\<lparr>quoteBuffer := quoteBuffer s @ [d]\<rparr>
      in if maxBufferSize s1 < length (quoteBuffer s1)
         then s1\<lparr>quoteBuffer := tl (quoteBuffer s1)\<rparr>
         else s1)"

definition processKlineData :: "KlineData \<Rightarrow> ItickService \<Rightarrow> ItickService" where
  "processKlineData d s =
     (let sym = kl_s d;
          close = bar_c (kl_k d);
          s1 =
            (if 2 \<le> length (dataBuffer s) then
               (let previousData = dataBuffer s ! (length (dataBuffer s) - 2)
                in if kl_s previousData = sym then
                     (let priceChange = jsMinus close (bar_c (kl_k previousData));
                          priceChangePercent =
                            jsTimes (jsDivide priceChange (bar_c (kl_k previousData))) (Finite 100)
                      in if jsGreater (jsAbs priceChangePercent) (roundDouble (1 / 10)) then
                           emitS (SvSignificantPriceChange
                                    \<lparr>symbol = sym, previousPrice = bar_c (kl_k previousData),
                                     currentPrice = close, change = priceChange,
                                     changePercent = priceChangePercent\<rparr>)
                             (logS LvInfo MsgSignificantPriceChangeDetected s)
                         else s)
                   else s)
             else s)
      in emitS (SvDataProcessed
                  \<lparr>p_symbol = sym, p_price = close, p_volume = bar_v (kl_k d),
                   p_timestamp = bar_t (kl_k d)\<rparr>) s1)"

definition processQuoteData :: "QuoteData \<Rightarrow> ItickService \<Rightarrow> ItickService" where
  "processQuoteData d s =
     (let sym = q_s d;
          price = q_ld d;
          s1 =
            (if 2 \<le> length (quoteBuffer s) then
               (let previousData = quoteBuffer s ! (length (quoteBuffer s) - 2)
                in if q_s previousData = sym then
                     (let priceChange = jsMinus price (q_ld previousData);
                          priceChangePercent =
                            jsTimes (jsDivide priceChange (q_ld previousData)) (Finite 100)
                      in if jsGreater (jsAbs priceChangePercent) (roundDouble (1 / 10)) then
                           emitS (SvSignificantPriceChange
                                    \<lparr>symbol = sym, previousPrice = q_ld previousData,
                                     currentPrice = price, change = priceChange,
                                     changePercent = priceChangePercent\<rparr>)
                             (logS LvInfo MsgSignificantPriceChangeDetected s)
                         else s)
                   else s)
             else s)
      in emitS (SvQuoteDataProcessed
                  \<lparr>p_symbol = sym, p_price = price, p_volume = q_v d, p_timestamp = q_t d\<rparr>) s1)"

definition handleKlineData :: "KlineData \<Rightarrow> ItickService \<Rightarrow> ItickService" where
  "handleKlineData d s = processKlineData d (emitS (SvKlineData d) (addToBuffer d s))"

definition handleQuoteData :: "QuoteData \<Rightarrow> ItickService \<Rightarrow> ItickService" where
  "handleQuoteData d s = processQuoteData d (emitS (SvQuoteData d) (addToQuoteBuffer d s))"

text \<open>
  \<^verbatim>\<open>getSubscribedSymbols\<close> spreads the internal array into a new one and returns the
  reference of the new array.
\<close>

definition getSubscribedSymbols :: "ItickService \<Rightarrow> nat \<times> ItickService" where
  "getSubscribedSymbols s =
     (length (arrays s), s\<lparr>arrays := arrays s @ [arrays s ! subscribedSymbols s]\<rparr>)"

definition getConnectionStatus :: "ItickService \<Rightarrow> ConnectionStatus" where
  "getConnectionStatus s = getStatus (client s)"

definition isServiceRunning :: "ItickService \<Rightarrow> bool" where
  "isServiceRunning s = isRunning s"

definition clearDataBuffer :: "ItickService \<Rightarrow> ItickService" where
  "clearDataBuffer s = logS LvInfo MsgDataBufferCleared (s\<lparr>dataBuffer := []\<rparr>)"

definition clearQuoteBuffer :: "ItickService \<Rightarrow> ItickService" where
  "clearQuoteBuffer s = logS LvInfo MsgQuoteBufferCleared (s\<lparr>quoteBuffer := []\<rparr>)"

definition resubscribe :: "nat \<Rightarrow> ItickService \<Rightarrow> ItickService" where
  "resubscribe symbols s =
     (if \<not> isRunning s then logS LvWarn MsgServiceIsNotRunningCannotResubscribe s
      else
        (let s1 = logS LvInfo MsgResubscribing s;
             s2 = s1\<lparr>subscribedSymbols := symbols\<rparr>;
             s3 = s2\<lparr>client := subscribe (arrays s2 ! symbols) (client s2)\<rparr>
         in logS LvInfo MsgSubscriptionEventSubscribe s3))"

text \<open>
  The listeners that \<^verbatim>\<open>setupEventHandlers\<close> registers on the client, by event. No
  listener is registered for \<^verbatim>\<open>reconnected\<close>.
\<close>

definition onClientEvent :: "ClientEvent \<Rightarrow> ItickService \<Rightarrow> ItickService" where
  "onClientEvent ev s =
     (case ev of
        EvAuthenticated \<Rightarrow>
          emitS SvAuthenticated
            (logS LvInfo MsgStatusChangeConnectingToAuthenticated
               (logS LvInfo MsgAuthenticated s))
      | EvAuthFailed response \<Rightarrow>
          emitS (SvAuthFailed response)
            (logS LvInfo MsgStatusChangeConnectingToAuthFailed
               (logS LvError MsgAuthenticationFailed s))
      | EvSubscribed \<Rightarrow>
          emitS SvSubscribed
            (logS LvInfo MsgStatusChangeAuthenticatedToSubscribed
               (logS LvInfo MsgSubscribed s))
      | EvSubscribeFailed response \<Rightarrow>
          emitS (SvSubscribeFailed response) (logS LvError MsgSubscriptionFailed s)
      | EvKlineData d \<Rightarrow> handleKlineData d s
      | EvQuoteData d \<Rightarrow> handleQuoteData d s
      | EvDisconnected cd reason \<Rightarrow>
          emitS (SvDisconnected cd reason)
            (logS LvInfo MsgStatusChangeSubscribedToDisconnected
               (logS LvInfo MsgConnectionEventDisconnected s))
      | EvMaxReconnectAttemptsReached \<Rightarrow>
          emitS SvMaxReconnectAttemptsReached
            (stop
               (logS LvInfo MsgStatusChangeDisconnectedToFailed
                  (logS LvError MsgMaximumReconnectAttemptsReachedStopping s)))
      | EvReconnected \<Rightarrow> s)"

text \<open>
  The event loop delivers an input to the client of the service; the events the client
  emits while it handles the input reach the listeners of the service in order.
\<close>

definition deliver :: "ClientInput \<Rightarrow> ItickService \<Rightarrow> ItickService" where
  "deliver inp s =
     (let c = clientStep inp (client s);
          evs = drop (length (emitted (client s))) (emitted c)
      in foldl (\<lambda>s' ev. onClientEvent ev s') (s\<lparr>client := c\<rparr>) evs)"

section \<open>Reference definitions and concrete runs\<close>

text \<open>
  The separator-joined string as the interface description writes it,
  \<^verbatim>\<open><symbol1>$<symbol2>...\<close>: the elements in order, with the separator between
  neighbours.
\<close>

fun separated :: "string \<Rightarrow> string list \<Rightarrow> string" where
  "separated sep [] = []"
| "separated sep [x] = x"
| "separated sep (x # y # ys) = x @ sep @ separated sep (y # ys)"

text \<open>Inbound frames of the feed.\<close>

definition authOk :: WebSocketMessage where
  "authOk = \<lparr>code = Some 1, resAc = Some ''auth'', msg = Some ''authenticated'', data = None\<rparr>"

definition authRefused :: WebSocketMessage where
  "authRefused = \<lparr>code = Some 1, resAc = Some ''auth'', msg = Some ''auth failed'', data = None\<rparr>"

definition subscribeOk :: WebSocketMessage where
  "subscribeOk = \<lparr>code = Some 1, resAc = Some ''subscribe'',
     msg = Some ''subscribe Successfully'', data = None\<rparr>"

text \<open>
  A service that starts normally. The caller allocates the array \<^verbatim>\<open>["EURUSD$GB"]\<close>
  (reference 1) and calls \<^verbatim>\<open>start\<close>; socket 0 opens; the feed accepts the token;
  \<^verbatim>\<open>start\<close> sends the subscribe request and returns; the feed confirms the
  subscription, and the heartbeat interval (timer 0) is armed.
\<close>

definition svcCreated :: ItickService where
  "svcCreated = snd (allocArray [''EURUSD$GB''] newService)"

definition svcStarting :: ItickService where
  "svcStarting = snd (start 1 svcCreated)"

definition svcOpen :: ItickService where
  "svcOpen = snd (startConnected (deliver (WsOpen 0) svcStarting))"

definition svcAuthenticated :: ItickService where
  "svcAuthenticated = deliver (WsMessage 0 (Parsed authOk)) svcOpen"

definition svcStarted :: ItickService where
  "svcStarted = snd (startAuthenticated 1 svcAuthenticated)"

definition svcSubscribed :: ItickService where
  "svcSubscribed = deliver (WsMessage 0 (Parsed subscribeOk)) svcStarted"

text \<open>
  The connection drops (socket 0 closes with code 1006): the close handler arms
  reconnect timer 1. The timer fires and \<^verbatim>\<open>connect()\<close> creates socket 1.
\<close>

definition svcDropped :: ItickService where
  "svcDropped = deliver (WsClose 0 1006 []) svcSubscribed"

definition svcRetrying :: ItickService where
  "svcRetrying = deliver (TimerFired 1 0) svcDropped"

text \<open>
  The attempt fails: socket 1 reports \<^verbatim>\<open>error\<close> and then \<^verbatim>\<open>close\<close>, as a socket
  that cannot connect does. The close handler runs while the error handler is suspended
  in its notification; then the error handler rejects the promise, and the
  \<^verbatim>\<open>catch\<close> block of the reconnect callback runs to its end.
\<close>

definition svcRetryError :: ItickService where
  "svcRetryError = deliver (WsError 1 ''ECONNREFUSED'') svcRetrying"

definition svcRetryClosed :: ItickService where
  "svcRetryClosed = deliver (WsClose 1 1006 []) svcRetryError"

definition svcRetryRejected :: ItickService where
  "svcRetryRejected = deliver (Resumed 0) svcRetryClosed"

definition svcRetryFailed :: ItickService where
  "svcRetryFailed = deliver (Resumed 0) svcRetryRejected"

text \<open>The caller stops the service; later, timer 2 fires.\<close>

definition svcStopped :: ItickService where
  "svcStopped = stop svcRetryFailed"

definition svcAfterStop :: ItickService where
  "svcAfterStop = deliver (TimerFired 2 0) svcStopped"

text \<open>
  Another continuation of the first reconnect attempt: socket 1 opens, and the feed
  refuses the token.
\<close>

definition svcReopened :: ItickService where
  "svcReopened = deliver (WsOpen 1) svcRetrying"

definition svcRefused :: ItickService where
  "svcRefused = deliver (WsMessage 1 (Parsed authRefused)) svcReopened"

text \<open>
  Another continuation of the failed attempt, without a stop: timer 2 fires and socket
  2 opens; timer 3 fires, and socket 3 fails to connect; then the answer of the feed to
  the token arrives on socket 2.
\<close>

definition svcSecond :: ItickService where
  "svcSecond = deliver (WsOpen 2) (deliver (TimerFired 2 0) svcRetryFailed)"

definition svcThird :: ItickService where
  "svcThird = deliver (WsError 3 ''ECONNREFUSED'') (deliver (TimerFired 3 0) svcSecond)"

definition svcThirdClosed :: ItickService where
  "svcThirdClosed = deliver (WsClose 3 1006 []) svcThird"

definition svcLateAuth :: ItickService where
  "svcLateAuth = deliver (WsMessage 2 (Parsed authOk)) svcThirdClosed"

text \<open>
  The caller of a running, subscribed service allocates \<^verbatim>\<open>["USDJPY$GB"]\<close>
  (reference 2) and calls \<^verbatim>\<open>resubscribe\<close>.
\<close>

definition svcResubscribed :: ItickService where
  "svcResubscribed = resubscribe 2 (snd (allocArray [''USDJPY$GB''] svcSubscribed))"

text \<open>
  Sample events of the feed for one symbol: the event with a given double as its price,
  and the event that is parsed from a frame with the price as a decimal.
\<close>

definition quoteOf :: "JsNumber \<Rightarrow> QuoteData" where
  "quoteOf x = \<lparr>q_s = ''EURUSD$GB'', q_ld = x, q_o = x, q_h = x, q_l = x, q_t = Finite 0,
     q_v = Finite 1, q_tu = x, q_ts = Finite 0\<rparr>"

definition klineOf :: "JsNumber \<Rightarrow> KlineData" where
  "klineOf x = \<lparr>kl_s = ''EURUSD$GB'', kl_t = Finite 1,
     kl_k = \<lparr>bar_tu = x, bar_c = x, bar_t = Finite 0, bar_v = Finite 1, bar_h = x, bar_l = x,
             bar_o = x\<rparr>\<rparr>"

definition quoteAt :: "real \<Rightarrow> QuoteData" where
  "quoteAt p = quoteOf (roundDouble p)"

definition klineAt :: "real \<Rightarrow> KlineData" where
  "klineAt p = klineOf (roundDouble p)"

text \<open>
  The \<^verbatim>\<open>significantPriceChange\<close> events among a list of events, and those that the
  service emits while it handles one quote, or one kline, in a given state.
\<close>

definition significantChanges :: "ServiceEvent list \<Rightarrow> PriceChange list" where
  "significantChanges evs =
     concat (map (\<lambda>ev. case ev of SvSignificantPriceChange pc \<Rightarrow> [pc] | _ \<Rightarrow> []) evs)"

definition quoteChanges :: "QuoteData \<Rightarrow> ItickService \<Rightarrow> PriceChange list" where
  "quoteChanges d s =
     significantChanges (drop (length (serviceEmitted s)) (serviceEmitted (handleQuoteData d s)))"

definition klineChanges :: "KlineData \<Rightarrow> ItickService \<Rightarrow> PriceChange list" where
  "klineChanges d s =
     significantChanges (drop (length (serviceEmitted s)) (serviceEmitted (handleKlineData d s)))"

text \<open>
  Two doubles, the ones that the decimals 110.36 and 110.47036 are parsed to, as the
  prices of two quotes in a row; and three quotes in a row of which the second is of
  another symbol.
\<close>

definition priceLow :: JsNumber where
  "priceLow = Finite (7765894607446999 / 2 ^ 46)"

definition priceHigh :: JsNumber where
  "priceHigh = Finite (3886830251027223 / 2 ^ 45)"

definition otherQuote :: QuoteData where
  "otherQuote = (quoteOf (Finite 150))\<lparr>q_s := ''USDJPY$GB''\<rparr>"

definition otherKline :: KlineData where
  "otherKline = (klineOf (Finite 150))\<lparr>kl_s := ''USDJPY$GB''\<rparr>"

text \<open>
  One more continuation of the failed reconnect attempt: timer 2 fires and socket 2
  opens, timer 3 fires and socket 3 opens, so that two sockets are open and the client
  refers to socket 3. The caller stops the service; then a quote arrives on socket 2.
\<close>

definition quoteFrame :: WebSocketMessage where
  "quoteFrame = \<lparr>code = Some 1, resAc = None, msg = None,
     data = Some (QuotePayload (quoteOf (Finite 1)))\<rparr>"

definition svcBothOpen :: ItickService where
  "svcBothOpen = deliver (WsOpen 3) (deliver (TimerFired 3 0) svcSecond)"

definition svcBothStopped :: ItickService where
  "svcBothStopped = stop svcBothOpen"

definition svcLateQuote :: ItickService where
  "svcLateQuote = deliver (WsMessage 2 (Parsed quoteFrame)) svcBothStopped"

section \<open>Evaluation of the concrete runs\<close>

lemmas client_defs =
  logC_def emitC_def notify_def setTimer_def clearTimer_def closeSocket_def stopHeartbeat_def
  startHeartbeat_def sendMessage_def join_def subscribe_def sendHeartbeat_def
  scheduleReconnect_def connect_def settle_def suspend_def onOpen_def onError_def
  rejectConnect_def afterReconnectFailure_def onClose_def handleAuthResponse_def
  handleSubscribeResponse_def handleKlineDataC_def handleQuoteDataC_def handlePongResponse_def
  handleMessage_def onMessage_def disconnect_def fireTimer_def resume_def clientStep_def
  newClient_def

lemmas service_defs =
  newService_def logS_def emitS_def allocArray_def mutateArray_def stop_def start_def
  startConnected_def startAuthenticated_def startFailed_def getSubscribedSymbols_def
  resubscribe_def onClientEvent_def deliver_def

lemmas frame_defs = authOk_def subscribeOk_def

text \<open>The states of the runs that several runs go on from, written out.\<close>

lemma svcSubscribed_eq:
  "svcSubscribed =
     \<lparr>client =
        \<lparr>ws = Some 0, status = SUBSCRIBED, heartbeatInterval = Some 0,
         reconnectInterval = None, reconnectAttempts = 0, maxReconnectAttempts = 5,
         reconnectDelay = 1000, maxReconnectDelay = 30000, heartbeatDelay = 60000,
         heartbeatTimeout = None, heartbeatTimeoutDelay = 10000, shouldReconnect = True,
         sockets = [WS_OPEN], timers = [(0, HeartbeatTick, 60000)], nextTimer = 1,
         sent = [(0, OutSubscribe \<lparr>ac = ''subscribe'', params = ''EURUSD$GB'',
                                     types = ''quote''\<rparr>)],
         emitted = [EvAuthenticated, EvSubscribed], notified = [], pending = [],
         suspended = [],
         clientLog =
           [(LvInfo, MsgConnecting), (LvInfo, MsgConnectionEstablished),
            (LvInfo, MsgAuthenticated), (LvInfo, MsgSubscribeRequestSent),
            (LvInfo, MsgSubscribed), (LvInfo, MsgHeartbeatStarted)]\<rparr>,
      subscribedSymbols = 1, isRunning = True, dataBuffer = [], quoteBuffer = [],
      maxBufferSize = 1000, arrays = [[], [''EURUSD$GB'']],
      serviceEmitted = [SvAuthenticated, SvStarted, SvSubscribed],
      serviceLog =
        [(LvInfo, MsgStartingService), (LvInfo, MsgConnectionEventConnected),
         (LvInfo, MsgAuthenticated), (LvInfo, MsgStatusChangeConnectingToAuthenticated),
         (LvInfo, MsgSubscriptionEventSubscribe), (LvInfo, MsgServiceStarted),
         (LvInfo, MsgSubscribed), (LvInfo, MsgStatusChangeAuthenticatedToSubscribed)]\<rparr>"
  by (simp add: svcSubscribed_def svcStarted_def svcAuthenticated_def svcOpen_def
      svcStarting_def svcCreated_def frame_defs service_defs client_defs Let_def)

lemma svcRetrying_eq:
  "svcRetrying =
     \<lparr>client =
        \<lparr>ws = Some 1, status = CONNECTING, heartbeatInterval = None,
         reconnectInterval = Some 1, reconnectAttempts = 1, maxReconnectAttempts = 5,
         reconnectDelay = 1000, maxReconnectDelay = 30000, heartbeatDelay = 60000,
         heartbeatTimeout = None, heartbeatTimeoutDelay = 10000, shouldReconnect = True,
         sockets = [WS_CLOSED, WS_CONNECTING], timers = [], nextTimer = 2,
         sent = [(0, OutSubscribe \<lparr>ac = ''subscribe'', params = ''EURUSD$GB'',
                                     types = ''quote''\<rparr>)],
         emitted = [EvAuthenticated, EvSubscribed, EvDisconnected 1006 []], notified = [],
         pending = [(1, ByReconnect 1)], suspended = [],
         clientLog =
           [(LvInfo, MsgConnecting), (LvInfo, MsgConnectionEstablished),
            (LvInfo, MsgAuthenticated), (LvInfo, MsgSubscribeRequestSent),
            (LvInfo, MsgSubscribed), (LvInfo, MsgHeartbeatStarted),
            (LvWarn, MsgConnectionClosed), (LvInfo, MsgHeartbeatStopped),
            (LvInfo, MsgPreparingToReconnect), (LvInfo, MsgConnecting)]\<rparr>,
      subscribedSymbols = 1, isRunning = True, dataBuffer = [], quoteBuffer = [],
      maxBufferSize = 1000, arrays = [[], [''EURUSD$GB'']],
      serviceEmitted = [SvAuthenticated, SvStarted, SvSubscribed, SvDisconnected 1006 []],
      serviceLog =
        [(LvInfo, MsgStartingService), (LvInfo, MsgConnectionEventConnected),
         (LvInfo, MsgAuthenticated), (LvInfo, MsgStatusChangeConnectingToAuthenticated),
         (LvInfo, MsgSubscriptionEventSubscribe), (LvInfo, MsgServiceStarted),
         (LvInfo, MsgSubscribed), (LvInfo, MsgStatusChangeAuthenticatedToSubscribed),
         (LvInfo, MsgConnectionEventDisconnected),
         (LvInfo, MsgStatusChangeSubscribedToDisconnected)]\<rparr>"
  by (simp add: svcRetrying_def svcDropped_def svcSubscribed_eq service_defs client_defs Let_def)

lemma svcRetryFailed_eq:
  "svcRetryFailed =
     \<lparr>client =
        \<lparr>ws = Some 1, status = DISCONNECTED, heartbeatInterval = None,
         reconnectInterval = Some 3, reconnectAttempts = 3, maxReconnectAttempts = 5,
         reconnectDelay = 1000, maxReconnectDelay = 30000, heartbeatDelay = 60000,
         heartbeatTimeout = None, heartbeatTimeoutDelay = 10000, shouldReconnect = True,
         sockets = [WS_CLOSED, WS_CLOSED],
         timers = [(2, ReconnectTimer, 2000), (3, ReconnectTimer, 4000)], nextTimer = 4,
         sent = [(0, OutSubscribe \<lparr>ac = ''subscribe'', params = ''EURUSD$GB'',
                                     types = ''quote''\<rparr>)],
         emitted = [EvAuthenticated, EvSubscribed, EvDisconnected 1006 [],
                    EvDisconnected 1006 []],
         notified = [ConnectionErrorNotification ''ECONNREFUSED'' 1,
                     ReconnectFailureNotification ''ECONNREFUSED'' 2],
         pending = [], suspended = [],
         clientLog =
           [(LvInfo, MsgConnecting), (LvInfo, MsgConnectionEstablished),
            (LvInfo, MsgAuthenticated), (LvInfo, MsgSubscribeRequestSent),
            (LvInfo, MsgSubscribed), (LvInfo, MsgHeartbeatStarted),
            (LvWarn, MsgConnectionClosed), (LvInfo, MsgHeartbeatStopped),
            (LvInfo, MsgPreparingToReconnect), (LvInfo, MsgConnecting),
            (LvError, MsgSocketError), (LvWarn, MsgConnectionClosed),
            (LvInfo, MsgPreparingToReconnect), (LvError, MsgReconnectFailed),
            (LvInfo, MsgPreparingToReconnect)]\<rparr>,
      subscribedSymbols = 1, isRunning = True, dataBuffer = [], quoteBuffer = [],
      maxBufferSize = 1000, arrays = [[], [''EURUSD$GB'']],
      serviceEmitted = [SvAuthenticated, SvStarted, SvSubscribed, SvDisconnected 1006 [],
                        SvDisconnected 1006 []],
      serviceLog =
        [(LvInfo, MsgStartingService), (LvInfo, MsgConnectionEventConnected),
         (LvInfo, MsgAuthenticated), (LvInfo, MsgStatusChangeConnectingToAuthenticated),
         (LvInfo, MsgSubscriptionEventSubscribe), (LvInfo, MsgServiceStarted),
         (LvInfo, MsgSubscribed), (LvInfo, MsgStatusChangeAuthenticatedToSubscribed),
         (LvInfo, MsgConnectionEventDisconnected),
         (LvInfo, MsgStatusChangeSubscribedToDisconnected),
         (LvInfo, MsgConnectionEventDisconnected),
         (LvInfo, MsgStatusChangeSubscribedToDisconnected)]\<rparr>"
  by (simp add: svcRetryFailed_def svcRetryRejected_def svcRetryClosed_def svcRetryError_def
      svcRetrying_eq service_defs client_defs Let_def)

section \<open>Reconnection backoff\<close>

text \<open>
  Claim C3. Every call of \<^verbatim>\<open>scheduleReconnect\<close> increments the attempt counter and
  arms exactly one new timer, whose delay is
  \<open>min (reconnectDelay * 2 ^ (n - 1)) maxReconnectDelay\<close> for the attempt number \<open>n\<close>
  after the increment, so \<open>n \<ge> 1\<close>. With the defaults (base 1000 ms, cap 30000 ms) the
  delays of the attempts 1 to 5 are 1000, 2000, 4000, 8000 and 16000 ms, and attempt 6
  gets the cap, 30000 ms.
\<close>

theorem scheduleReconnect_backoff:
  "reconnectAttempts (scheduleReconnect c) = reconnectAttempts c + 1
   \<and> timers (scheduleReconnect c) =
       timers c @ [(nextTimer c, ReconnectTimer,
                    min (reconnectDelay c * 2 ^ (reconnectAttempts (scheduleReconnect c) - 1))
                        (maxReconnectDelay c))]
   \<and> reconnectInterval (scheduleReconnect c) = Some (nextTimer c)
   \<and> map (\<lambda>n. armedReconnectDelay (scheduleReconnect (newClient\<lparr>reconnectAttempts := n - 1\<rparr>)))
        [1, 2, 3, 4, 5, 6]
      = [Some 1000, Some 2000, Some 4000, Some 8000, Some 16000, Some 30000]"
  by (simp add: scheduleReconnect_def setTimer_def logC_def armedReconnectDelay_def
      newClient_def Let_def)

text \<open>
  The older copy of the client has no cap. Up to the maximum of five attempts it arms
  the same delays; a sixth attempt would wait 32000 ms.
\<close>

lemma scheduleReconnectOld_delays:
  "map (\<lambda>n. armedReconnectDelay (scheduleReconnectOld (newClient\<lparr>reconnectAttempts := n - 1\<rparr>)))
     [1, 2, 3, 4, 5, 6]
   = [Some 1000, Some 2000, Some 4000, Some 8000, Some 16000, Some 32000]"
  by (simp add: scheduleReconnectOld_def setTimer_def logC_def armedReconnectDelay_def
      newClient_def Let_def)

section \<open>The subscribe request\<close>

lemma joinLoop_Suc: "joinLoop sep r (Suc k) xs = r @ concat (map (\<lambda>x. sep @ x) xs)"
  by (induction xs arbitrary: r k) simp_all

lemma separated_Cons: "separated sep (x # xs) = x @ concat (map (\<lambda>y. sep @ y) xs)"
  by (induction xs arbitrary: x) simp_all

lemma join_separated: "join sep xs = separated sep xs"
  by (cases xs) (simp_all add: join_def joinLoop_Suc separated_Cons)

text \<open>
  Claim C9. For every list of symbols, the subscribe request that \<^verbatim>\<open>subscribe\<close>
  builds and writes to the open socket of an authenticated client has the symbols
  separated by \<^verbatim>\<open>$\<close> as its \<^verbatim>\<open>params\<close>; for \<^verbatim>\<open>["EURUSD$GB","USDJPY$GB"]\<close> that is
  \<^verbatim>\<open>"EURUSD$GB$USDJPY$GB"\<close>.
\<close>

theorem subscribe_params:
  assumes "status c = AUTHENTICATED" and "ws c = Some sid" and "sid < length (sockets c)"
    and "sockets c ! sid = WS_OPEN"
  shows "sent (subscribe symbols c) =
           sent c @ [(sid, OutSubscribe \<lparr>ac = ''subscribe'', params = separated ''$'' symbols,
                                         types = ''quote''\<rparr>)]
         \<and> separated ''$'' [''EURUSD$GB'', ''USDJPY$GB''] = ''EURUSD$GB$USDJPY$GB''"
  using assms by (simp add: subscribe_def sendMessage_def logC_def join_separated)

theorem subscribe_params_witness:
  "sent (subscribe [''EURUSD$GB'', ''USDJPY$GB'']
           (newClient\<lparr>status := AUTHENTICATED, ws := Some 0, sockets := [WS_OPEN]\<rparr>)) =
     [(0, OutSubscribe \<lparr>ac = ''subscribe'', params = ''EURUSD$GB$USDJPY$GB'',
                        types = ''quote''\<rparr>)]"
  using subscribe_params [of "newClient\<lparr>status := AUTHENTICATED, ws := Some 0, sockets := [WS_OPEN]\<rparr>"
      0 "[''EURUSD$GB'', ''USDJPY$GB'']"]
  by (simp add: newClient_def)

section \<open>The history buffers\<close>

lemma drop_snoc_step:
  "drop (length (drop (length L - cap) L @ [d]) - cap) (drop (length L - cap) L @ [d])
   = drop (length (L @ [d]) - cap) (L @ [d])"
  by (cases "length L < cap") (auto simp: Suc_diff_le)

lemma dataBuffer_addToBuffer:
  assumes "length (dataBuffer s) \<le> maxBufferSize s"
  shows "dataBuffer (addToBuffer d s) =
           drop (length (dataBuffer s @ [d]) - maxBufferSize s) (dataBuffer s @ [d])"
proof (cases "maxBufferSize s < Suc (length (dataBuffer s))")
  case True
  with assms have "Suc (length (dataBuffer s)) - maxBufferSize s = Suc 0" by simp
  with True show ?thesis
    by (simp add: addToBuffer_def Let_def drop_Suc del: drop_append)
next
  case False
  then show ?thesis by (simp add: addToBuffer_def Let_def)
qed

lemma quoteBuffer_addToQuoteBuffer:
  assumes "length (quoteBuffer s) \<le> maxBufferSize s"
  shows "quoteBuffer (addToQuoteBuffer d s) =
           drop (length (quoteBuffer s @ [d]) - maxBufferSize s) (quoteBuffer s @ [d])"
proof (cases "maxBufferSize s < Suc (length (quoteBuffer s))")
  case True
  with assms have "Suc (length (quoteBuffer s)) - maxBufferSize s = Suc 0" by simp
  with True show ?thesis
    by (simp add: addToQuoteBuffer_def Let_def drop_Suc del: drop_append)
next
  case False
  then show ?thesis by (simp add: addToQuoteBuffer_def Let_def)
qed

lemma maxBufferSize_addToBuffer: "maxBufferSize (addToBuffer d s) = maxBufferSize s"
  by (simp add: addToBuffer_def Let_def)

lemma maxBufferSize_addToQuoteBuffer: "maxBufferSize (addToQuoteBuffer d s) = maxBufferSize s"
  by (simp add: addToQuoteBuffer_def Let_def)

text \<open>
  Appending a sequence of klines to a buffer within its capacity leaves the last
  \<^verbatim>\<open>maxBufferSize\<close> entries of what was there followed by what was appended.
\<close>

lemma addToBuffer_foldl:
  assumes "length (dataBuffer s) \<le> maxBufferSize s"
  shows "dataBuffer (foldl (\<lambda>s d. addToBuffer d s) s ds)
           = drop (length (dataBuffer s @ ds) - maxBufferSize s) (dataBuffer s @ ds)
         \<and> maxBufferSize (foldl (\<lambda>s d. addToBuffer d s) s ds) = maxBufferSize s"
proof (induction ds rule: rev_induct)
  case Nil
  from assms show ?case by simp
next
  case (snoc d ds)
  let ?s' = "foldl (\<lambda>s d. addToBuffer d s) s ds"
  let ?L = "dataBuffer s @ ds"
  from snoc have buf: "dataBuffer ?s' = drop (length ?L - maxBufferSize s) ?L"
    and cap: "maxBufferSize ?s' = maxBufferSize s" by simp_all
  have len: "length (dataBuffer ?s') \<le> maxBufferSize ?s'"
    unfolding buf cap by simp
  have "dataBuffer (addToBuffer d ?s') =
          drop (length (dataBuffer ?s' @ [d]) - maxBufferSize ?s') (dataBuffer ?s' @ [d])"
    by (rule dataBuffer_addToBuffer [OF len])
  also have "\<dots> = drop (length (?L @ [d]) - maxBufferSize s) (?L @ [d])"
    unfolding buf cap by (rule drop_snoc_step)
  finally show ?case by (simp add: maxBufferSize_addToBuffer cap)
qed

lemma addToQuoteBuffer_foldl:
  assumes "length (quoteBuffer s) \<le> maxBufferSize s"
  shows "quoteBuffer (foldl (\<lambda>s d. addToQuoteBuffer d s) s ds)
           = drop (length (quoteBuffer s @ ds) - maxBufferSize s) (quoteBuffer s @ ds)
         \<and> maxBufferSize (foldl (\<lambda>s d. addToQuoteBuffer d s) s ds) = maxBufferSize s"
proof (induction ds rule: rev_induct)
  case Nil
  from assms show ?case by simp
next
  case (snoc d ds)
  let ?s' = "foldl (\<lambda>s d. addToQuoteBuffer d s) s ds"
  let ?L = "quoteBuffer s @ ds"
  from snoc have buf: "quoteBuffer ?s' = drop (length ?L - maxBufferSize s) ?L"
    and cap: "maxBufferSize ?s' = maxBufferSize s" by simp_all
  have len: "length (quoteBuffer ?s') \<le> maxBufferSize ?s'"
    unfolding buf cap by simp
  have "quoteBuffer (addToQuoteBuffer d ?s') =
          drop (length (quoteBuffer ?s' @ [d]) - maxBufferSize ?s') (quoteBuffer ?s' @ [d])"
    by (rule quoteBuffer_addToQuoteBuffer [OF len])
  also have "\<dots> = drop (length (?L @ [d]) - maxBufferSize s) (?L @ [d])"
    unfolding buf cap by (rule drop_snoc_step)
  finally show ?case by (simp add: maxBufferSize_addToQuoteBuffer cap)
qed

text \<open>
  Claim C2. Starting from buffers within the capacity \<^verbatim>\<open>maxBufferSize\<close> (1000 in a new
  service, where both buffers are empty), after every sequence of appends to the kline
  buffer, and to the quote buffer, the length of the buffer is at most the capacity; and
  after \<open>maxBufferSize + k\<close> appends to an empty buffer it holds exactly the last
  \<open>maxBufferSize\<close> of the appended entries, in the order of their insertion.
\<close>

theorem history_buffer_bounded_fifo:
  assumes "length (dataBuffer s) \<le> maxBufferSize s"
    and "length (quoteBuffer s) \<le> maxBufferSize s"
  shows "length (dataBuffer (foldl (\<lambda>s d. addToBuffer d s) s ks)) \<le> maxBufferSize s
    \<and> length (quoteBuffer (foldl (\<lambda>s d. addToQuoteBuffer d s) s qs)) \<le> maxBufferSize s
    \<and> (dataBuffer s = [] \<and> length ks = maxBufferSize s + k \<longrightarrow>
         dataBuffer (foldl (\<lambda>s d. addToBuffer d s) s ks) = drop k ks
         \<and> length (dataBuffer (foldl (\<lambda>s d. addToBuffer d s) s ks)) = maxBufferSize s)
    \<and> (quoteBuffer s = [] \<and> length qs = maxBufferSize s + k \<longrightarrow>
         quoteBuffer (foldl (\<lambda>s d. addToQuoteBuffer d s) s qs) = drop k qs
         \<and> length (quoteBuffer (foldl (\<lambda>s d. addToQuoteBuffer d s) s qs)) = maxBufferSize s)
    \<and> maxBufferSize newService = 1000 \<and> dataBuffer newService = []
    \<and> quoteBuffer newService = []"
proof -
  note K = addToBuffer_foldl [OF assms(1), of ks]
  note Q = addToQuoteBuffer_foldl [OF assms(2), of qs]
  have "length (dataBuffer (foldl (\<lambda>s d. addToBuffer d s) s ks)) \<le> maxBufferSize s"
    using K by simp
  moreover have "length (quoteBuffer (foldl (\<lambda>s d. addToQuoteBuffer d s) s qs)) \<le> maxBufferSize s"
    using Q by simp
  moreover have "dataBuffer s = [] \<and> length ks = maxBufferSize s + k \<longrightarrow>
         dataBuffer (foldl (\<lambda>s d. addToBuffer d s) s ks) = drop k ks
         \<and> length (dataBuffer (foldl (\<lambda>s d. addToBuffer d s) s ks)) = maxBufferSize s"
    using K by simp
  moreover have "quoteBuffer s = [] \<and> length qs = maxBufferSize s + k \<longrightarrow>
         quoteBuffer (foldl (\<lambda>s d. addToQuoteBuffer d s) s qs) = drop k qs
         \<and> length (quoteBuffer (foldl (\<lambda>s d. addToQuoteBuffer d s) s qs)) = maxBufferSize s"
    using Q by simp
  ultimately show ?thesis by (simp add: newService_def)
qed

theorem history_buffer_bounded_fifo_witness:
  "dataBuffer (foldl (\<lambda>s d. addToBuffer d s) (newService\<lparr>maxBufferSize := 2\<rparr>)
                 [klineAt 1, klineAt 2, klineAt 3]) = [klineAt 2, klineAt 3]
   \<and> quoteBuffer (foldl (\<lambda>s d. addToQuoteBuffer d s) (newService\<lparr>maxBufferSize := 2\<rparr>)
                 [quoteAt 1, quoteAt 2, quoteAt 3]) = [quoteAt 2, quoteAt 3]"
  using history_buffer_bounded_fifo [of "newService\<lparr>maxBufferSize := 2\<rparr>"
      "[klineAt 1, klineAt 2, klineAt 3]" "[quoteAt 1, quoteAt 2, quoteAt 3]" 1]
  by (simp add: newService_def)

section \<open>Starting and stopping the service\<close>

lemma disconnect_fields:
  "\<not> shouldReconnect (disconnect c) \<and> ws (disconnect c) = None
   \<and> status (disconnect c) = DISCONNECTED \<and> heartbeatInterval (disconnect c) = None
   \<and> heartbeatTimeout (disconnect c) = None \<and> reconnectInterval (disconnect c) = None
   \<and> emitted (disconnect c) = emitted c \<and> length (sockets (disconnect c)) = length (sockets c)"
  by (simp add: disconnect_def stopHeartbeat_def clearTimer_def closeSocket_def logC_def Let_def
      split: option.splits)

lemma disconnect_closes_socket:
  assumes "ws c = Some sid" and "sid < length (sockets c)"
  shows "sockets (disconnect c) ! sid = WS_CLOSING \<or> sockets (disconnect c) ! sid = WS_CLOSED"
  using assms
  by (simp add: disconnect_def stopHeartbeat_def clearTimer_def closeSocket_def logC_def Let_def
      split: option.splits)

text \<open>
  What \<^verbatim>\<open>stop()\<close> does in every state: a second call in a row emits nothing (so no
  second \<^verbatim>\<open>stopped\<close>) and only logs a warning, and \<^verbatim>\<open>stop\<close> has no failing path. On
  a running service one call switches reconnection off, closes and drops the socket that
  the client refers to, empties both history buffers and emits \<^verbatim>\<open>stopped\<close> exactly
  once.
\<close>

lemma stop_effects:
  "serviceEmitted (stop (stop s)) = serviceEmitted (stop s)
   \<and> stop (stop s) = logS LvWarn MsgServiceIsNotRunning (stop s)
   \<and> (\<not> isRunning s \<longrightarrow> stop s = logS LvWarn MsgServiceIsNotRunning s)
   \<and> (isRunning s \<longrightarrow>
        serviceEmitted (stop s) = serviceEmitted s @ [SvStopped]
        \<and> client (stop s) = disconnect (client s)
        \<and> \<not> shouldReconnect (client (stop s))
        \<and> ws (client (stop s)) = None
        \<and> status (client (stop s)) = DISCONNECTED
        \<and> (\<forall>sid. ws (client s) = Some sid \<and> sid < length (sockets (client s)) \<longrightarrow>
              sockets (client (stop s)) ! sid = WS_CLOSING
              \<or> sockets (client (stop s)) ! sid = WS_CLOSED)
        \<and> dataBuffer (stop s) = [] \<and> quoteBuffer (stop s) = []
        \<and> \<not> isRunning (stop s))"
proof -
  have off: "\<not> isRunning (stop s)"
    by (simp add: stop_def logS_def emitS_def Let_def)
  have twice: "stop (stop s) = logS LvWarn MsgServiceIsNotRunning (stop s)"
    using off by (simp add: stop_def [of "stop s"])
  have quiet: "serviceEmitted (stop (stop s)) = serviceEmitted (stop s)"
    unfolding twice by (simp add: logS_def)
  have idle: "\<not> isRunning s \<longrightarrow> stop s = logS LvWarn MsgServiceIsNotRunning s"
    by (simp add: stop_def)
  have cl: "isRunning s \<longrightarrow> client (stop s) = disconnect (client s)"
    by (simp add: stop_def logS_def emitS_def Let_def)
  have run: "isRunning s \<longrightarrow>
        serviceEmitted (stop s) = serviceEmitted s @ [SvStopped]
        \<and> dataBuffer (stop s) = [] \<and> quoteBuffer (stop s) = []"
    by (simp add: stop_def logS_def emitS_def Let_def)
  show ?thesis
    using off twice quiet idle cl run disconnect_fields [of "client s"]
      disconnect_closes_socket [of "client s"]
    by auto
qed

text \<open>
  Claim C7 fails on the code in its middle part. After one failed reconnect attempt two
  reconnect timers are armed (see the section on reconnect timers). Timer 2 fires and
  socket 2 opens; timer 3 fires, and \<^verbatim>\<open>connect()\<close> replaces the reference to socket 2
  by socket 3 without closing socket 2; socket 3 opens. The service is running, with two
  open sockets. \<^verbatim>\<open>stop()\<close> emits \<^verbatim>\<open>stopped\<close> once, empties the buffers and closes
  socket 3; socket 2 stays open, with its handlers. A quote that arrives on socket 2
  after \<^verbatim>\<open>stop()\<close> has returned is buffered and emitted by the stopped service, and a
  second \<^verbatim>\<open>stop()\<close> only logs a warning and leaves socket 2 open.
\<close>

theorem stop_leaves_socket_open:
  "isRunning svcBothOpen
   \<and> ws (client svcBothOpen) = Some 3
   \<and> sockets (client svcBothOpen) = [WS_CLOSED, WS_CLOSED, WS_OPEN, WS_OPEN]
   \<and> \<not> isRunning svcBothStopped
   \<and> serviceEmitted svcBothStopped = serviceEmitted svcBothOpen @ [SvStopped]
   \<and> \<not> shouldReconnect (client svcBothStopped)
   \<and> timers (client svcBothStopped) = []
   \<and> ws (client svcBothStopped) = None
   \<and> sockets (client svcBothStopped) = [WS_CLOSED, WS_CLOSED, WS_OPEN, WS_CLOSING]
   \<and> quoteBuffer svcBothStopped = []
   \<and> quoteBuffer svcLateQuote = [quoteOf (Finite 1)]
   \<and> serviceEmitted svcLateQuote =
       serviceEmitted svcBothStopped
       @ [SvQuoteData (quoteOf (Finite 1)),
          SvQuoteDataProcessed \<lparr>p_symbol = ''EURUSD$GB'', p_price = Finite 1,
            p_volume = Finite 1, p_timestamp = Finite 0\<rparr>]
   \<and> stop svcLateQuote = logS LvWarn MsgServiceIsNotRunning svcLateQuote
   \<and> sockets (client (stop svcLateQuote)) = [WS_CLOSED, WS_CLOSED, WS_OPEN, WS_CLOSING]"
  by (simp add: svcLateQuote_def svcBothStopped_def svcBothOpen_def svcSecond_def
      svcRetryFailed_eq quoteFrame_def quoteOf_def handleQuoteData_def addToQuoteBuffer_def
      processQuoteData_def service_defs client_defs Let_def)

text \<open>
  Claim C6 fails on the code: \<^verbatim>\<open>start\<close> on a service that is already running returns
  normally. Here the running, subscribed service is started again.
\<close>

theorem start_running_counterexample:
  "isRunning svcSubscribed \<and> fst (start 1 svcSubscribed) = Resolved"
  by (simp add: svcSubscribed_eq start_def)

text \<open>
  Claim C6 as amended. \<^verbatim>\<open>start(symbols)\<close> on a service that is already started does
  not fail: the promise resolves, a warning is logged, and nothing else changes (the
  subscription set is kept and no connection is opened).
\<close>

theorem start_when_running:
  assumes "isRunning s"
  shows "start symbols s = (Resolved, logS LvWarn MsgServiceIsAlreadyRunning s)"
  using assms by (simp add: start_def)

theorem start_when_running_witness:
  "isRunning svcSubscribed
   \<and> start 1 svcSubscribed = (Resolved, logS LvWarn MsgServiceIsAlreadyRunning svcSubscribed)"
  using start_when_running [of svcSubscribed 1] by (simp add: svcSubscribed_eq)

section \<open>The subscription set\<close>

text \<open>
  Claim C10. \<^verbatim>\<open>getSubscribedSymbols()\<close> returns a fresh copy: in every state whose
  subscription set is an allocated array, the returned reference is none that existed
  before the call, the new array has the content of the subscription set, and whatever
  is done to the returned array afterwards (\<open>f\<close>), the service refers to the same array
  with the same content as before, and a later query returns that content again.
\<close>

theorem getSubscribedSymbols_fresh_copy:
  assumes "subscribedSymbols s < length (arrays s)"
  shows "length (arrays s) \<le> fst (getSubscribedSymbols s)
    \<and> fst (getSubscribedSymbols s) \<noteq> subscribedSymbols s
    \<and> arrays (snd (getSubscribedSymbols s)) ! fst (getSubscribedSymbols s)
        = arrays s ! subscribedSymbols s
    \<and> subscribedSymbols (mutateArray (fst (getSubscribedSymbols s)) f (snd (getSubscribedSymbols s)))
        = subscribedSymbols s
    \<and> arrays (mutateArray (fst (getSubscribedSymbols s)) f (snd (getSubscribedSymbols s)))
        ! subscribedSymbols s = arrays s ! subscribedSymbols s
    \<and> arrays (snd (getSubscribedSymbols
                (mutateArray (fst (getSubscribedSymbols s)) f (snd (getSubscribedSymbols s)))))
        ! fst (getSubscribedSymbols
                (mutateArray (fst (getSubscribedSymbols s)) f (snd (getSubscribedSymbols s))))
        = arrays s ! subscribedSymbols s"
  using assms by (simp add: getSubscribedSymbols_def mutateArray_def nth_append)

theorem getSubscribedSymbols_fresh_copy_witness:
  "fst (getSubscribedSymbols svcSubscribed) = 2
   \<and> arrays (snd (getSubscribedSymbols svcSubscribed)) ! 2 = [''EURUSD$GB'']
   \<and> arrays (mutateArray 2 (\<lambda>xs. xs @ [''USDJPY$GB'']) (snd (getSubscribedSymbols svcSubscribed)))
       = [[], [''EURUSD$GB''], [''EURUSD$GB'', ''USDJPY$GB'']]
   \<and> subscribedSymbols
       (mutateArray 2 (\<lambda>xs. xs @ [''USDJPY$GB'']) (snd (getSubscribedSymbols svcSubscribed))) = 1"
  using getSubscribedSymbols_fresh_copy [of svcSubscribed "\<lambda>xs. xs @ [''USDJPY$GB'']"]
  by (simp add: svcSubscribed_eq getSubscribedSymbols_def mutateArray_def)

text \<open>
  \<^verbatim>\<open>resubscribe\<close> on a service that is not running only logs a warning. On a running
  service it makes the given array the subscription set, leaves the sockets and the
  client's socket reference as they are, and calls \<^verbatim>\<open>subscribe\<close> of the client, which
  writes the request if the client is in the \<^verbatim>\<open>AUTHENTICATED\<close> state, and writes
  nothing in any other state.
\<close>

lemma resubscribe_not_running:
  "\<not> isRunning s \<Longrightarrow> resubscribe symbols s = logS LvWarn MsgServiceIsNotRunningCannotResubscribe s"
  by (simp add: resubscribe_def)

lemma resubscribe_running:
  assumes "isRunning s"
  shows "subscribedSymbols (resubscribe symbols s) = symbols
    \<and> arrays (resubscribe symbols s) = arrays s
    \<and> client (resubscribe symbols s) = subscribe (arrays s ! symbols) (client s)
    \<and> sockets (client (resubscribe symbols s)) = sockets (client s)
    \<and> ws (client (resubscribe symbols s)) = ws (client s)
    \<and> status (client (resubscribe symbols s)) = status (client s)"
  using assms
  by (simp add: resubscribe_def subscribe_def sendMessage_def logS_def logC_def Let_def
      split: option.splits)

lemma subscribe_not_authenticated:
  "status c \<noteq> AUTHENTICATED \<Longrightarrow> sent (subscribe symbols c) = sent c"
  by (simp add: subscribe_def logC_def)

text \<open>
  Claim C5 fails on the code at the state a successful start leaves the service in: the
  service is running, its client is in the \<^verbatim>\<open>SUBSCRIBED\<close> state and socket 0 is open.
  \<^verbatim>\<open>resubscribe(["USDJPY$GB"])\<close> replaces the subscription set, but \<^verbatim>\<open>subscribe\<close> of
  the client refuses to send in any state other than \<^verbatim>\<open>AUTHENTICATED\<close>: it logs the
  error that authentication is not complete, and the only request ever written to the
  socket stays the one for \<^verbatim>\<open>EURUSD$GB\<close>. The service logs the subscription as made.
\<close>

theorem resubscribe_sends_nothing:
  "isRunning svcSubscribed
   \<and> status (client svcSubscribed) = SUBSCRIBED
   \<and> ws (client svcSubscribed) = Some 0
   \<and> sockets (client svcSubscribed) = [WS_OPEN]
   \<and> arrays svcResubscribed ! subscribedSymbols svcResubscribed = [''USDJPY$GB'']
   \<and> sent (client svcResubscribed) =
       [(0, OutSubscribe \<lparr>ac = ''subscribe'', params = ''EURUSD$GB'', types = ''quote''\<rparr>)]
   \<and> sent (client svcResubscribed) = sent (client svcSubscribed)
   \<and> last (clientLog (client svcResubscribed)) = (LvError, MsgNotAuthenticatedYetCannotSubscribe)
   \<and> last (serviceLog svcResubscribed) = (LvInfo, MsgSubscriptionEventSubscribe)
   \<and> sockets (client svcResubscribed) = [WS_OPEN]"
  by (simp add: svcResubscribed_def svcSubscribed_eq resubscribe_def subscribe_def allocArray_def
      logS_def logC_def Let_def)

section \<open>Authentication and the attempt counter\<close>

lemma onOpen_fields:
  "reconnectAttempts (onOpen sid c) = 0 \<and> status (onOpen sid c) = CONNECTED"
  by (simp add: onOpen_def settle_def notify_def logC_def emitC_def Let_def
      split: option.splits Awaiter.splits)

text \<open>
  Claim C4 fails on the code. In the first run the connection of a subscribed service
  drops (the counter becomes 1), the reconnect timer fires and the new socket opens: the
  \<^verbatim>\<open>open\<close> handler resets the counter to 0 while the state is \<^verbatim>\<open>CONNECTED\<close>; the feed
  then refuses the token, so the counter was reset for a connection that never
  authenticated. In the second run the answer to the token of socket 2 arrives after the
  close handler of socket 3 has counted an attempt: the authentication handler moves the
  state to \<^verbatim>\<open>AUTHENTICATED\<close> and leaves the counter at 1.
\<close>

theorem auth_counter_counterexample:
  "reconnectAttempts (client svcRetrying) = 1
   \<and> reconnectAttempts (client svcReopened) = 0
   \<and> status (client svcReopened) = CONNECTED
   \<and> status (client svcRefused) = ERROR
   \<and> reconnectAttempts (client svcRefused) = 0
   \<and> reconnectAttempts (client svcThirdClosed) = 1
   \<and> status (client svcLateAuth) = AUTHENTICATED
   \<and> last (emitted (client svcLateAuth)) = EvAuthenticated
   \<and> reconnectAttempts (client svcLateAuth) = 1"
proof -
  have a: "reconnectAttempts (client svcRetrying) = 1
      \<and> reconnectAttempts (client svcReopened) = 0 \<and> status (client svcReopened) = CONNECTED
      \<and> status (client svcRefused) = ERROR \<and> reconnectAttempts (client svcRefused) = 0"
    by (simp add: svcRefused_def svcReopened_def svcRetrying_eq authRefused_def service_defs
        client_defs Let_def)
  have b: "reconnectAttempts (client svcThirdClosed) = 1
      \<and> status (client svcLateAuth) = AUTHENTICATED
      \<and> last (emitted (client svcLateAuth)) = EvAuthenticated
      \<and> reconnectAttempts (client svcLateAuth) = 1"
    by (simp add: svcLateAuth_def svcThirdClosed_def svcThird_def svcSecond_def
        svcRetryFailed_eq frame_defs service_defs client_defs Let_def)
  from a b show ?thesis by simp
qed

text \<open>
  Claim C4 as amended. On an authentication success message (code 1, response action
  \<^verbatim>\<open>auth\<close>, message \<^verbatim>\<open>authenticated\<close>) the handler moves the state to
  \<^verbatim>\<open>AUTHENTICATED\<close>, whatever it was, and emits \<^verbatim>\<open>authenticated\<close>; it leaves the
  reconnect attempt counter, and every other field but the log, as it is. The counter is
  reset to 0 by the \<^verbatim>\<open>open\<close> handler of the socket, on every open, before any
  authentication.
\<close>

theorem auth_success_keeps_counter:
  assumes "code message = Some 1" and "resAc message = Some ''auth''"
    and "msg message = Some ''authenticated''"
  shows "handleMessage message c =
           c\<lparr>status := AUTHENTICATED, emitted := emitted c @ [EvAuthenticated],
             clientLog := clientLog c @ [(LvInfo, MsgAuthenticated)]\<rparr>
    \<and> status (handleMessage message c) = AUTHENTICATED
    \<and> emitted (handleMessage message c) = emitted c @ [EvAuthenticated]
    \<and> reconnectAttempts (handleMessage message c) = reconnectAttempts c
    \<and> reconnectAttempts (onOpen sid c) = 0
    \<and> status (onOpen sid c) = CONNECTED"
  using assms onOpen_fields [of sid c]
  by (simp add: handleMessage_def handleAuthResponse_def logC_def emitC_def)

theorem auth_success_keeps_counter_witness:
  "status (handleMessage authOk (newClient\<lparr>status := CONNECTED, reconnectAttempts := 2\<rparr>))
     = AUTHENTICATED
   \<and> reconnectAttempts (handleMessage authOk (newClient\<lparr>status := CONNECTED, reconnectAttempts := 2\<rparr>))
     = 2
   \<and> reconnectAttempts (onOpen 0 (newClient\<lparr>status := CONNECTED, reconnectAttempts := 2\<rparr>)) = 0"
proof -
  let ?c = "newClient\<lparr>status := CONNECTED, reconnectAttempts := 2\<rparr>"
  have 1: "code authOk = Some 1" and 2: "resAc authOk = Some ''auth''"
    and 3: "msg authOk = Some ''authenticated''"
    by (simp_all add: authOk_def)
  from auth_success_keeps_counter [OF 1 2 3, of ?c 0] show ?thesis by simp
qed

section \<open>Disconnects, reconnect timers and stop\<close>

lemma stopHeartbeat_frame:
  "nextTimer (stopHeartbeat c) = nextTimer c
   \<and> reconnectAttempts (stopHeartbeat c) = reconnectAttempts c
   \<and> maxReconnectAttempts (stopHeartbeat c) = maxReconnectAttempts c
   \<and> reconnectDelay (stopHeartbeat c) = reconnectDelay c
   \<and> maxReconnectDelay (stopHeartbeat c) = maxReconnectDelay c
   \<and> shouldReconnect (stopHeartbeat c) = shouldReconnect c
   \<and> reconnectInterval (stopHeartbeat c) = reconnectInterval c"
  by (simp add: stopHeartbeat_def clearTimer_def logC_def Let_def split: option.splits)

lemma stopHeartbeat_timers:
  "timers (stopHeartbeat c) =
     filter (\<lambda>t. Some (fst t) \<noteq> heartbeatInterval c \<and> Some (fst t) \<noteq> heartbeatTimeout c)
       (timers c)"
  by (auto simp: stopHeartbeat_def clearTimer_def logC_def Let_def split: option.splits
      intro: filter_cong)

text \<open>
  The close handler arms exactly one timer, a reconnect timer, when the disconnect is
  not intentional and attempts remain, and arms none when the disconnect is intentional.
\<close>

lemma onClose_arms_one:
  assumes "shouldReconnect c" and "reconnectAttempts c < maxReconnectAttempts c"
  shows "timers (onClose cd reason c) =
           timers (stopHeartbeat c) @
             [(nextTimer c, ReconnectTimer,
               min (reconnectDelay c * 2 ^ reconnectAttempts c) (maxReconnectDelay c))]
    \<and> nextTimer (onClose cd reason c) = Suc (nextTimer c)
    \<and> reconnectAttempts (onClose cd reason c) = reconnectAttempts c + 1
    \<and> status (onClose cd reason c) = DISCONNECTED"
  using assms
  by (simp add: onClose_def scheduleReconnect_def setTimer_def stopHeartbeat_def clearTimer_def
      logC_def emitC_def Let_def split: option.splits)

lemma onClose_intentional:
  assumes "\<not> shouldReconnect c"
  shows "timers (onClose cd reason c) = timers (stopHeartbeat c)
    \<and> nextTimer (onClose cd reason c) = nextTimer c
    \<and> reconnectAttempts (onClose cd reason c) = reconnectAttempts c
    \<and> status (onClose cd reason c) = DISCONNECTED"
  using assms
  by (simp add: onClose_def stopHeartbeat_def clearTimer_def logC_def emitC_def Let_def
      split: option.splits)

text \<open>
  \<^verbatim>\<open>disconnect\<close> disarms the timers whose handles the client holds, and no other:
  of the reconnect timers, the one armed last.
\<close>

lemma disconnect_timers:
  "timers (disconnect c) =
     filter (\<lambda>t. Some (fst t) \<noteq> heartbeatInterval c \<and> Some (fst t) \<noteq> heartbeatTimeout c
                 \<and> Some (fst t) \<noteq> reconnectInterval c)
       (timers c)"
  by (auto simp: disconnect_def stopHeartbeat_def clearTimer_def closeSocket_def logC_def Let_def
      split: option.splits intro: filter_cong)

text \<open>
  So \<^verbatim>\<open>disconnect\<close> leaves no reconnect timer armed in a state in which every armed
  reconnect timer is the one \<^verbatim>\<open>reconnectInterval\<close> refers to.
\<close>

lemma disconnect_single_timer:
  assumes "\<forall>t \<in> set (timers c). fst (snd t) = ReconnectTimer \<longrightarrow> reconnectInterval c = Some (fst t)"
  shows "\<forall>t \<in> set (timers (disconnect c)). fst (snd t) \<noteq> ReconnectTimer"
  using assms unfolding disconnect_timers by auto

text \<open>
  Claim C1 fails on the code in its last part. The service is subscribed; the connection
  drops and the close handler arms reconnect timer 1; the attempt fails, and socket 1
  reports \<^verbatim>\<open>error\<close> and \<^verbatim>\<open>close\<close>: the close handler arms reconnect timer 2, and the
  \<^verbatim>\<open>catch\<close> block of the reconnect callback arms reconnect timer 3, whose handle
  replaces that of timer 2 in \<^verbatim>\<open>reconnectInterval\<close>. \<^verbatim>\<open>stop()\<close> now clears timer 3
  only. Timer 2 stays armed after \<^verbatim>\<open>stop()\<close> has returned; when it fires, the stopped
  service connects again and reconnection is switched on again.
\<close>

theorem stop_leaves_reconnect_armed:
  "isRunning svcRetryFailed
   \<and> timers (client svcRetryFailed) = [(2, ReconnectTimer, 2000), (3, ReconnectTimer, 4000)]
   \<and> reconnectInterval (client svcRetryFailed) = Some 3
   \<and> \<not> isRunning svcStopped
   \<and> \<not> shouldReconnect (client svcStopped)
   \<and> status (client svcStopped) = DISCONNECTED
   \<and> sockets (client svcStopped) = [WS_CLOSED, WS_CLOSED]
   \<and> timers (client svcStopped) = [(2, ReconnectTimer, 2000)]
   \<and> \<not> isRunning svcAfterStop
   \<and> status (client svcAfterStop) = CONNECTING
   \<and> shouldReconnect (client svcAfterStop)
   \<and> ws (client svcAfterStop) = Some 2
   \<and> sockets (client svcAfterStop) = [WS_CLOSED, WS_CLOSED, WS_CONNECTING]"
  by (simp add: svcAfterStop_def svcStopped_def svcRetryFailed_eq service_defs client_defs Let_def)

section \<open>Significant price changes\<close>

lemma previous_after_append:
  assumes "b \<noteq> []" and "length b \<le> cap" and "2 \<le> cap"
  shows "2 \<le> length (drop (length (b @ [d]) - cap) (b @ [d]))
    \<and> drop (length (b @ [d]) - cap) (b @ [d])
        ! (length (drop (length (b @ [d]) - cap) (b @ [d])) - 2) = last b"
proof (cases "length b = cap")
  case True
  with assms have k: "length (b @ [d]) - cap = Suc 0" by simp
  from True assms have n: "2 \<le> length b" by simp
  have A: "drop (Suc 0) (b @ [d]) = tl b @ [d]"
    using assms(1) by (cases b) simp_all
  have L: "length (tl b @ [d]) = length b"
    using assms(1) by simp
  have B: "(tl b @ [d]) ! (length b - 2) = last b"
  proof -
    have lt: "length b - 2 < length (tl b)" using n by simp
    have "(tl b @ [d]) ! (length b - 2) = tl b ! (length b - 2)"
      using lt by (simp add: nth_append)
    also have "\<dots> = b ! Suc (length b - 2)"
      using lt by (simp add: nth_tl)
    also have "Suc (length b - 2) = length b - 1"
      using n by simp
    finally show ?thesis using assms(1) by (simp add: last_conv_nth)
  qed
  show ?thesis unfolding k A L using n B by (rule conjI)
next
  case False
  with assms have k: "Suc (length b) - cap = 0" by simp
  have L: "length (b @ [d]) = Suc (length b)" by simp
  have n: "2 \<le> Suc (length b)" using assms(1) by (cases b) simp_all
  have B: "(b @ [d]) ! (Suc (length b) - 2) = last b"
  proof -
    have "Suc (length b) - 2 = length b - 1" by simp
    moreover have "length b - 1 < length b" using assms(1) by simp
    ultimately show ?thesis using assms(1) by (simp add: nth_append last_conv_nth)
  qed
  show ?thesis unfolding L k drop_0 L using n B by (rule conjI)
qed

lemma handleQuoteData_frame:
  "quoteBuffer (handleQuoteData d s) = quoteBuffer (addToQuoteBuffer d s)
   \<and> maxBufferSize (handleQuoteData d s) = maxBufferSize s
   \<and> dataBuffer (handleQuoteData d s) = dataBuffer s"
  by (simp add: handleQuoteData_def processQuoteData_def addToQuoteBuffer_def emitS_def logS_def
      Let_def)

lemma handleKlineData_frame:
  "dataBuffer (handleKlineData d s) = dataBuffer (addToBuffer d s)
   \<and> maxBufferSize (handleKlineData d s) = maxBufferSize s
   \<and> quoteBuffer (handleKlineData d s) = quoteBuffer s"
  by (simp add: handleKlineData_def processKlineData_def addToBuffer_def emitS_def logS_def
      Let_def)

text \<open>
  After a quote has been handled it is the last entry of the quote buffer, and the
  buffer is within its capacity.
\<close>

lemma handleQuoteData_last:
  assumes "1 \<le> maxBufferSize s" and "length (quoteBuffer s) \<le> maxBufferSize s"
  shows "quoteBuffer (handleQuoteData d s) \<noteq> []
    \<and> last (quoteBuffer (handleQuoteData d s)) = d
    \<and> length (quoteBuffer (handleQuoteData d s)) \<le> maxBufferSize s"
proof -
  have "quoteBuffer (handleQuoteData d s) =
          drop (length (quoteBuffer s @ [d]) - maxBufferSize s) (quoteBuffer s @ [d])"
    using quoteBuffer_addToQuoteBuffer [OF assms(2)] handleQuoteData_frame by simp
  then show ?thesis using assms by simp
qed

lemma handleKlineData_last:
  assumes "1 \<le> maxBufferSize s" and "length (dataBuffer s) \<le> maxBufferSize s"
  shows "dataBuffer (handleKlineData d s) \<noteq> []
    \<and> last (dataBuffer (handleKlineData d s)) = d
    \<and> length (dataBuffer (handleKlineData d s)) \<le> maxBufferSize s"
proof -
  have "dataBuffer (handleKlineData d s) =
          drop (length (dataBuffer s @ [d]) - maxBufferSize s) (dataBuffer s @ [d])"
    using dataBuffer_addToBuffer [OF assms(2)] handleKlineData_frame by simp
  then show ?thesis using assms by simp
qed

text \<open>
  The event that \<^verbatim>\<open>processQuoteData\<close> compares a quote with is the entry before last
  of the buffer after the append, which is the quote handled before.
\<close>

lemma quoteChanges_previous:
  assumes "quoteBuffer s \<noteq> []" and "length (quoteBuffer s) \<le> maxBufferSize s"
    and "2 \<le> maxBufferSize s"
  shows "quoteChanges d s =
     (if q_s (last (quoteBuffer s)) = q_s d
         \<and> jsGreater
              (jsAbs (jsTimes (jsDivide (jsMinus (q_ld d) (q_ld (last (quoteBuffer s))))
                                 (q_ld (last (quoteBuffer s)))) (Finite 100)))
              (roundDouble (1 / 10))
      then [\<lparr>symbol = q_s d, previousPrice = q_ld (last (quoteBuffer s)), currentPrice = q_ld d,
             change = jsMinus (q_ld d) (q_ld (last (quoteBuffer s))),
             changePercent =
               jsTimes (jsDivide (jsMinus (q_ld d) (q_ld (last (quoteBuffer s))))
                          (q_ld (last (quoteBuffer s)))) (Finite 100)\<rparr>]
      else [])"
proof -
  let ?b = "drop (length (quoteBuffer s @ [d]) - maxBufferSize s) (quoteBuffer s @ [d])"
  have buf: "quoteBuffer (addToQuoteBuffer d s) = ?b"
    by (rule quoteBuffer_addToQuoteBuffer [OF assms(2)])
  have pos: "2 \<le> length ?b \<and> ?b ! (length ?b - 2) = last (quoteBuffer s)"
    by (rule previous_after_append [OF assms])
  have em: "serviceEmitted (addToQuoteBuffer d s) = serviceEmitted s"
    by (simp add: addToQuoteBuffer_def Let_def)
  show ?thesis
    unfolding quoteChanges_def handleQuoteData_def processQuoteData_def
    using pos by (simp add: buf em emitS_def logS_def significantChanges_def Let_def)
qed

lemma klineChanges_previous:
  assumes "dataBuffer s \<noteq> []" and "length (dataBuffer s) \<le> maxBufferSize s"
    and "2 \<le> maxBufferSize s"
  shows "klineChanges d s =
     (if kl_s (last (dataBuffer s)) = kl_s d
         \<and> jsGreater
              (jsAbs (jsTimes
                        (jsDivide (jsMinus (bar_c (kl_k d)) (bar_c (kl_k (last (dataBuffer s)))))
                           (bar_c (kl_k (last (dataBuffer s))))) (Finite 100)))
              (roundDouble (1 / 10))
      then [\<lparr>symbol = kl_s d, previousPrice = bar_c (kl_k (last (dataBuffer s))),
             currentPrice = bar_c (kl_k d),
             change = jsMinus (bar_c (kl_k d)) (bar_c (kl_k (last (dataBuffer s)))),
             changePercent =
               jsTimes
                 (jsDivide (jsMinus (bar_c (kl_k d)) (bar_c (kl_k (last (dataBuffer s)))))
                    (bar_c (kl_k (last (dataBuffer s))))) (Finite 100)\<rparr>]
      else [])"
proof -
  let ?b = "drop (length (dataBuffer s @ [d]) - maxBufferSize s) (dataBuffer s @ [d])"
  have buf: "dataBuffer (addToBuffer d s) = ?b"
    by (rule dataBuffer_addToBuffer [OF assms(2)])
  have pos: "2 \<le> length ?b \<and> ?b ! (length ?b - 2) = last (dataBuffer s)"
    by (rule previous_after_append [OF assms])
  have em: "serviceEmitted (addToBuffer d s) = serviceEmitted s"
    by (simp add: addToBuffer_def Let_def)
  show ?thesis
    unfolding klineChanges_def handleKlineData_def processKlineData_def
    using pos by (simp add: buf em emitS_def logS_def significantChanges_def Let_def)
qed

text \<open>
  Two quotes handled one after the other: the change events emitted for the second one.
\<close>

lemma quoteChanges_consecutive:
  assumes "2 \<le> maxBufferSize s" and "length (quoteBuffer s) \<le> maxBufferSize s"
  shows "quoteChanges d2 (handleQuoteData d1 s) =
     (if q_s d1 = q_s d2
         \<and> jsGreater
              (jsAbs (jsTimes (jsDivide (jsMinus (q_ld d2) (q_ld d1)) (q_ld d1)) (Finite 100)))
              (roundDouble (1 / 10))
      then [\<lparr>symbol = q_s d2, previousPrice = q_ld d1, currentPrice = q_ld d2,
             change = jsMinus (q_ld d2) (q_ld d1),
             changePercent =
               jsTimes (jsDivide (jsMinus (q_ld d2) (q_ld d1)) (q_ld d1)) (Finite 100)\<rparr>]
      else [])"
proof -
  let ?s1 = "handleQuoteData d1 s"
  from assms have one: "1 \<le> maxBufferSize s" by simp
  note last = handleQuoteData_last [OF one assms(2), of d1]
  have cap: "maxBufferSize ?s1 = maxBufferSize s"
    using handleQuoteData_frame by simp
  have ne: "quoteBuffer ?s1 \<noteq> []" using last by simp
  have len: "length (quoteBuffer ?s1) \<le> maxBufferSize ?s1" using last cap by simp
  have two: "2 \<le> maxBufferSize ?s1" using assms(1) cap by simp
  have prev: "last (quoteBuffer ?s1) = d1" using last by simp
  show ?thesis
    using quoteChanges_previous [OF ne len two, of d2] unfolding prev by simp
qed

lemma klineChanges_consecutive:
  assumes "2 \<le> maxBufferSize s" and "length (dataBuffer s) \<le> maxBufferSize s"
  shows "klineChanges d2 (handleKlineData d1 s) =
     (if kl_s d1 = kl_s d2
         \<and> jsGreater
              (jsAbs (jsTimes
                        (jsDivide (jsMinus (bar_c (kl_k d2)) (bar_c (kl_k d1)))
                           (bar_c (kl_k d1)))
                        (Finite 100)))
              (roundDouble (1 / 10))
      then [\<lparr>symbol = kl_s d2, previousPrice = bar_c (kl_k d1), currentPrice = bar_c (kl_k d2),
             change = jsMinus (bar_c (kl_k d2)) (bar_c (kl_k d1)),
             changePercent =
               jsTimes
                 (jsDivide (jsMinus (bar_c (kl_k d2)) (bar_c (kl_k d1))) (bar_c (kl_k d1)))
                 (Finite 100)\<rparr>]
      else [])"
proof -
  let ?s1 = "handleKlineData d1 s"
  from assms have one: "1 \<le> maxBufferSize s" by simp
  note last = handleKlineData_last [OF one assms(2), of d1]
  have cap: "maxBufferSize ?s1 = maxBufferSize s"
    using handleKlineData_frame by simp
  have ne: "dataBuffer ?s1 \<noteq> []" using last by simp
  have len: "length (dataBuffer ?s1) \<le> maxBufferSize ?s1" using last cap by simp
  have two: "2 \<le> maxBufferSize ?s1" using assms(1) cap by simp
  have prev: "last (dataBuffer ?s1) = d1" using last by simp
  show ?thesis
    using klineChanges_previous [OF ne len two, of d2] unfolding prev by simp
qed

text \<open>Evaluation of the double arithmetic on numerals.\<close>

lemma binade_numeral:
  "binade (numeral k) a =
     (if 2 \<le> a then binade (pred_numeral k) (a / 2) + 1
      else if a < 1 then binade (pred_numeral k) (2 * a) - 1 else 0)"
  by (simp add: numeral_eq_Suc)

lemmas js_defs =
  jsTimes_def jsDivide_def jsMinus_def jsAbs_def jsGreater_def roundDouble_def quantum_def
  nearestEven_def pow2_def binade_numeral signedZero_def signedInfinity_def

text \<open>The literal \<^verbatim>\<open>0.1\<close> of the source is the double \<open>3602879701896397 / 2 ^ 55\<close>.\<close>

lemma threshold_double: "roundDouble (1 / 10) = Finite (3602879701896397 / 2 ^ 55)"
  by (simp add: js_defs)

lemma newService_buffers:
  "2 \<le> maxBufferSize newService \<and> length (quoteBuffer newService) \<le> maxBufferSize newService
   \<and> length (dataBuffer newService) \<le> maxBufferSize newService"
  by (simp add: newService_def)

text \<open>
  Claim C8 fails on the code, in both directions and in one more way. A quote of 1.5 and
  then one of 1.5015: the change of the two prices is exactly 0.1 percent, which does not
  exceed 0.1 percent, and the event is emitted, with a percentage of
  \<open>7205759403793067 / 2 ^ 56\<close>, for the price 1.5015 is parsed to a double above it
  and the operations round. A quote of 110.36 and then one of 110.47036, parsed to the
  doubles \<open>priceLow\<close> and \<open>priceHigh\<close>: the change of the two doubles exceeds 0.1
  percent, the computed percentage is the double of \<^verbatim>\<open>0.1\<close> itself, and no event is
  emitted, neither for quotes nor for klines. A quote of 1 and then one of 2 of the same
  symbol, with a quote of another symbol between them: the price of the symbol doubles
  and no event is emitted, for a quote is compared with the one handled just before it,
  whatever its symbol.
\<close>

theorem percentage_change_counterexample:
  "(15015 / 10000 - 15 / 10) / (15 / 10) * 100 = (1 / 10 :: real)
   \<and> quoteChanges (quoteAt (15015 / 10000)) (handleQuoteData (quoteAt (15 / 10)) newService) =
       [\<lparr>symbol = ''EURUSD$GB'', previousPrice = Finite (3 / 2),
         currentPrice = Finite (211317338765525 / 2 ^ 47),
         change = Finite (211106232533 / 2 ^ 47),
         changePercent = Finite (7205759403793067 / 2 ^ 56)\<rparr>]
   \<and> roundDouble (11036 / 100) = priceLow
   \<and> roundDouble (11047036 / 100000) = priceHigh
   \<and> 1 / 10 < \<bar>(jsValue priceHigh - jsValue priceLow) / jsValue priceLow * 100\<bar>
   \<and> jsTimes (jsDivide (jsMinus priceHigh priceLow) priceLow) (Finite 100) = roundDouble (1 / 10)
   \<and> quoteChanges (quoteOf priceHigh) (handleQuoteData (quoteOf priceLow) newService) = []
   \<and> klineChanges (klineOf priceHigh) (handleKlineData (klineOf priceLow) newService) = []
   \<and> q_s (quoteOf (Finite 2)) = q_s (quoteOf (Finite 1))
   \<and> quoteChanges (quoteOf (Finite 2))
        (handleQuoteData otherQuote (handleQuoteData (quoteOf (Finite 1)) newService)) = []"
proof -
  note B = newService_buffers
  have 1: "(15015 / 10000 - 15 / 10) / (15 / 10) * 100 = (1 / 10 :: real)"
    by simp
  have 2: "quoteChanges (quoteAt (15015 / 10000)) (handleQuoteData (quoteAt (15 / 10)) newService) =
       [\<lparr>symbol = ''EURUSD$GB'', previousPrice = Finite (3 / 2),
         currentPrice = Finite (211317338765525 / 2 ^ 47),
         change = Finite (211106232533 / 2 ^ 47),
         changePercent = Finite (7205759403793067 / 2 ^ 56)\<rparr>]"
    using B by (simp add: quoteChanges_consecutive quoteAt_def quoteOf_def js_defs)
  have 3: "roundDouble (11036 / 100) = priceLow \<and> roundDouble (11047036 / 100000) = priceHigh"
    by (simp add: priceLow_def priceHigh_def js_defs)
  have 4: "1 / 10 < \<bar>(jsValue priceHigh - jsValue priceLow) / jsValue priceLow * 100\<bar>"
    by (simp add: priceLow_def priceHigh_def)
  have 5: "jsTimes (jsDivide (jsMinus priceHigh priceLow) priceLow) (Finite 100)
      = roundDouble (1 / 10)"
    by (simp add: priceLow_def priceHigh_def js_defs)
  have 6: "quoteChanges (quoteOf priceHigh) (handleQuoteData (quoteOf priceLow) newService) = []"
    using B by (simp add: quoteChanges_consecutive quoteOf_def 5 threshold_double jsAbs_def
        jsGreater_def)
  have 7: "klineChanges (klineOf priceHigh) (handleKlineData (klineOf priceLow) newService) = []"
    using B by (simp add: klineChanges_consecutive klineOf_def 5 threshold_double jsAbs_def
        jsGreater_def)
  have 8: "q_s (quoteOf (Finite 2)) = q_s (quoteOf (Finite 1))"
    by (simp add: quoteOf_def)
  have 9: "quoteChanges (quoteOf (Finite 2))
        (handleQuoteData otherQuote (handleQuoteData (quoteOf (Finite 1)) newService)) = []"
  proof -
    let ?s1 = "handleQuoteData (quoteOf (Finite 1)) newService"
    have "1 \<le> maxBufferSize newService" using B by simp
    from handleQuoteData_last [OF this, of "quoteOf (Finite 1)"] B handleQuoteData_frame
    have "2 \<le> maxBufferSize ?s1" and "length (quoteBuffer ?s1) \<le> maxBufferSize ?s1"
      by simp_all
    from quoteChanges_consecutive [OF this] show ?thesis
      by (simp add: otherQuote_def quoteOf_def)
  qed
  from 1 2 3 4 5 6 7 8 9 show ?thesis by blast
qed

text \<open>
  Claim C8 as amended. The previous event of an event is the one handled just before it,
  also when the buffer is full. For two quotes handled one after the other, the
  \<^verbatim>\<open>significantPriceChange\<close> event is emitted for the second one exactly if the two
  symbols are equal and the absolute value of the percentage exceeds the double of
  \<^verbatim>\<open>0.1\<close>, where the percentage is computed in double arithmetic as
  \<^verbatim>\<open>((price - previous) / previous) * 100\<close>, each operation rounding its result; the event
  carries the symbol, the previous price, the current price, the computed difference and
  the computed percentage. The same holds for two klines and their closing prices. An
  event of another symbol between two events of one symbol prevents the comparison. A
  quote of 1.1 and then one of 1.1015 emits the event; a quote of 1.1 and then one of
  1.1005 does not. After a price of zero, of either sign, a price of 1 emits the event
  with an infinite percentage, and a price of zero emits none.
\<close>

theorem significant_price_change:
  assumes "2 \<le> maxBufferSize s" and "length (quoteBuffer s) \<le> maxBufferSize s"
    and "length (dataBuffer s) \<le> maxBufferSize s"
  shows "quoteChanges d2 (handleQuoteData d1 s) =
       (if q_s d1 = q_s d2
           \<and> jsGreater
                (jsAbs (jsTimes (jsDivide (jsMinus (q_ld d2) (q_ld d1)) (q_ld d1)) (Finite 100)))
                (roundDouble (1 / 10))
        then [\<lparr>symbol = q_s d2, previousPrice = q_ld d1, currentPrice = q_ld d2,
               change = jsMinus (q_ld d2) (q_ld d1),
               changePercent =
                 jsTimes (jsDivide (jsMinus (q_ld d2) (q_ld d1)) (q_ld d1)) (Finite 100)\<rparr>]
        else [])
    \<and> klineChanges k2 (handleKlineData k1 s) =
       (if kl_s k1 = kl_s k2
           \<and> jsGreater
                (jsAbs (jsTimes
                          (jsDivide (jsMinus (bar_c (kl_k k2)) (bar_c (kl_k k1)))
                             (bar_c (kl_k k1)))
                          (Finite 100)))
                (roundDouble (1 / 10))
        then [\<lparr>symbol = kl_s k2, previousPrice = bar_c (kl_k k1), currentPrice = bar_c (kl_k k2),
               change = jsMinus (bar_c (kl_k k2)) (bar_c (kl_k k1)),
               changePercent =
                 jsTimes
                   (jsDivide (jsMinus (bar_c (kl_k k2)) (bar_c (kl_k k1))) (bar_c (kl_k k1)))
                   (Finite 100)\<rparr>]
        else [])
    \<and> (q_s d2 \<noteq> q_s d3 \<longrightarrow>
          quoteChanges d3 (handleQuoteData d2 (handleQuoteData d1 s)) = [])
    \<and> (kl_s k2 \<noteq> kl_s k3 \<longrightarrow>
          klineChanges k3 (handleKlineData k2 (handleKlineData k1 s)) = [])
    \<and> roundDouble (1 / 10) = Finite (3602879701896397 / 2 ^ 55)
    \<and> quoteChanges (quoteAt (11015 / 10000)) (handleQuoteData (quoteAt (11 / 10)) s) =
       [\<lparr>symbol = ''EURUSD$GB'', previousPrice = Finite (2476979795053773 / 2 ^ 51),
         currentPrice = Finite (4960714989548601 / 2 ^ 52),
         change = Finite (6755399441055 / 2 ^ 52),
         changePercent = Finite (4913017775312727 / 2 ^ 55)\<rparr>]
    \<and> quoteChanges (quoteAt (11005 / 10000)) (handleQuoteData (quoteAt (11 / 10)) s) = []
    \<and> quoteChanges (quoteOf (Finite 1)) (handleQuoteData (quoteOf (Finite 0)) s) =
       [\<lparr>symbol = ''EURUSD$GB'', previousPrice = Finite 0, currentPrice = Finite 1,
         change = Finite 1, changePercent = PosInfinity\<rparr>]
    \<and> quoteChanges (quoteOf (Finite 1)) (handleQuoteData (quoteOf NegZero) s) =
       [\<lparr>symbol = ''EURUSD$GB'', previousPrice = NegZero, currentPrice = Finite 1,
         change = Finite 1, changePercent = NegInfinity\<rparr>]
    \<and> quoteChanges (quoteOf (Finite 0)) (handleQuoteData (quoteOf (Finite 0)) s) = []"
proof -
  note Q = quoteChanges_consecutive [OF assms(1,2)]
  note K = klineChanges_consecutive [OF assms(1,3)]
  from assms have one: "1 \<le> maxBufferSize s" by simp
  have 1: "quoteChanges d2 (handleQuoteData d1 s) =
       (if q_s d1 = q_s d2
           \<and> jsGreater
                (jsAbs (jsTimes (jsDivide (jsMinus (q_ld d2) (q_ld d1)) (q_ld d1)) (Finite 100)))
                (roundDouble (1 / 10))
        then [\<lparr>symbol = q_s d2, previousPrice = q_ld d1, currentPrice = q_ld d2,
               change = jsMinus (q_ld d2) (q_ld d1),
               changePercent =
                 jsTimes (jsDivide (jsMinus (q_ld d2) (q_ld d1)) (q_ld d1)) (Finite 100)\<rparr>]
        else [])"
    by (rule Q)
  have 2: "klineChanges k2 (handleKlineData k1 s) =
       (if kl_s k1 = kl_s k2
           \<and> jsGreater
                (jsAbs (jsTimes
                          (jsDivide (jsMinus (bar_c (kl_k k2)) (bar_c (kl_k k1)))
                             (bar_c (kl_k k1)))
                          (Finite 100)))
                (roundDouble (1 / 10))
        then [\<lparr>symbol = kl_s k2, previousPrice = bar_c (kl_k k1), currentPrice = bar_c (kl_k k2),
               change = jsMinus (bar_c (kl_k k2)) (bar_c (kl_k k1)),
               changePercent =
                 jsTimes
                   (jsDivide (jsMinus (bar_c (kl_k k2)) (bar_c (kl_k k1))) (bar_c (kl_k k1)))
                   (Finite 100)\<rparr>]
        else [])"
    by (rule K)
  have 3: "q_s d2 \<noteq> q_s d3 \<longrightarrow>
          quoteChanges d3 (handleQuoteData d2 (handleQuoteData d1 s)) = []"
  proof -
    let ?s1 = "handleQuoteData d1 s"
    from handleQuoteData_last [OF one assms(2), of d1] assms(1) handleQuoteData_frame [of d1 s]
    have "2 \<le> maxBufferSize ?s1" and "length (quoteBuffer ?s1) \<le> maxBufferSize ?s1"
      by simp_all
    from quoteChanges_consecutive [OF this] show ?thesis by simp
  qed
  have 4: "kl_s k2 \<noteq> kl_s k3 \<longrightarrow>
          klineChanges k3 (handleKlineData k2 (handleKlineData k1 s)) = []"
  proof -
    let ?s1 = "handleKlineData k1 s"
    from handleKlineData_last [OF one assms(3), of k1] assms(1) handleKlineData_frame [of k1 s]
    have "2 \<le> maxBufferSize ?s1" and "length (dataBuffer ?s1) \<le> maxBufferSize ?s1"
      by simp_all
    from klineChanges_consecutive [OF this] show ?thesis by simp
  qed
  have 5: "roundDouble (1 / 10) = Finite (3602879701896397 / 2 ^ 55)"
    by (rule threshold_double)
  have 6: "quoteChanges (quoteAt (11015 / 10000)) (handleQuoteData (quoteAt (11 / 10)) s) =
       [\<lparr>symbol = ''EURUSD$GB'', previousPrice = Finite (2476979795053773 / 2 ^ 51),
         currentPrice = Finite (4960714989548601 / 2 ^ 52),
         change = Finite (6755399441055 / 2 ^ 52),
         changePercent = Finite (4913017775312727 / 2 ^ 55)\<rparr>]"
    by (simp add: Q quoteAt_def quoteOf_def js_defs)
  have 7: "quoteChanges (quoteAt (11005 / 10000)) (handleQuoteData (quoteAt (11 / 10)) s) = []"
    by (simp add: Q quoteAt_def quoteOf_def js_defs)
  have 8: "quoteChanges (quoteOf (Finite 1)) (handleQuoteData (quoteOf (Finite 0)) s) =
       [\<lparr>symbol = ''EURUSD$GB'', previousPrice = Finite 0, currentPrice = Finite 1,
         change = Finite 1, changePercent = PosInfinity\<rparr>]"
    by (simp add: Q quoteOf_def js_defs)
  have 9: "quoteChanges (quoteOf (Finite 1)) (handleQuoteData (quoteOf NegZero) s) =
       [\<lparr>symbol = ''EURUSD$GB'', previousPrice = NegZero, currentPrice = Finite 1,
         change = Finite 1, changePercent = NegInfinity\<rparr>]"
    by (simp add: Q quoteOf_def js_defs)
  have 10: "quoteChanges (quoteOf (Finite 0)) (handleQuoteData (quoteOf (Finite 0)) s) = []"
    by (simp add: Q quoteOf_def js_defs)
  from 1 2 3 4 5 6 7 8 9 10 show ?thesis by blast
qed

theorem significant_price_change_witness:
  "2 \<le> maxBufferSize newService
   \<and> quoteChanges (quoteAt (11015 / 10000)) (handleQuoteData (quoteAt (11 / 10)) newService) =
       [\<lparr>symbol = ''EURUSD$GB'', previousPrice = Finite (2476979795053773 / 2 ^ 51),
         currentPrice = Finite (4960714989548601 / 2 ^ 52),
         change = Finite (6755399441055 / 2 ^ 52),
         changePercent = Finite (4913017775312727 / 2 ^ 55)\<rparr>]
   \<and> quoteChanges (quoteAt (11005 / 10000)) (handleQuoteData (quoteAt (11 / 10)) newService) = []
   \<and> klineChanges (klineOf (Finite 3)) (handleKlineData (klineOf (Finite 2)) newService) =
       [\<lparr>symbol = ''EURUSD$GB'', previousPrice = Finite 2, currentPrice = Finite 3,
         change = Finite 1, changePercent = Finite 50\<rparr>]
   \<and> klineChanges (klineOf (Finite 2)) (handleKlineData otherKline
        (handleKlineData (klineOf (Finite 1)) newService)) = []"
proof -
  note B = newService_buffers
  from B have h1: "2 \<le> maxBufferSize newService"
    and h2: "length (quoteBuffer newService) \<le> maxBufferSize newService"
    and h3: "length (dataBuffer newService) \<le> maxBufferSize newService"
    by simp_all
  note T = significant_price_change [OF h1 h2 h3, of _ _ "klineOf (Finite 3)" "klineOf (Finite 2)"]
  note U = significant_price_change [OF h1 h2 h3, of _ _ otherKline "klineOf (Finite 1)" _
      "klineOf (Finite 2)"]
  from T have a: "quoteChanges (quoteAt (11015 / 10000)) (handleQuoteData (quoteAt (11 / 10)) newService) =
       [\<lparr>symbol = ''EURUSD$GB'', previousPrice = Finite (2476979795053773 / 2 ^ 51),
         currentPrice = Finite (4960714989548601 / 2 ^ 52),
         change = Finite (6755399441055 / 2 ^ 52),
         changePercent = Finite (4913017775312727 / 2 ^ 55)\<rparr>]"
    by blast
  from T have b:
    "quoteChanges (quoteAt (11005 / 10000)) (handleQuoteData (quoteAt (11 / 10)) newService) = []"
    by blast
  from T have "klineChanges (klineOf (Finite 3)) (handleKlineData (klineOf (Finite 2)) newService) =
       (if kl_s (klineOf (Finite 2)) = kl_s (klineOf (Finite 3))
           \<and> jsGreater
                (jsAbs (jsTimes
                          (jsDivide (jsMinus (bar_c (kl_k (klineOf (Finite 3))))
                                       (bar_c (kl_k (klineOf (Finite 2)))))
                             (bar_c (kl_k (klineOf (Finite 2)))))
                          (Finite 100)))
                (roundDouble (1 / 10))
        then [\<lparr>symbol = kl_s (klineOf (Finite 3)),
               previousPrice = bar_c (kl_k (klineOf (Finite 2))),
               currentPrice = bar_c (kl_k (klineOf (Finite 3))),
               change = jsMinus (bar_c (kl_k (klineOf (Finite 3))))
                          (bar_c (kl_k (klineOf (Finite 2)))),
               changePercent =
                 jsTimes
                   (jsDivide (jsMinus (bar_c (kl_k (klineOf (Finite 3))))
                                (bar_c (kl_k (klineOf (Finite 2)))))
                      (bar_c (kl_k (klineOf (Finite 2)))))
                   (Finite 100)\<rparr>]
        else [])"
    by blast
  then have c: "klineChanges (klineOf (Finite 3)) (handleKlineData (klineOf (Finite 2)) newService) =
       [\<lparr>symbol = ''EURUSD$GB'', previousPrice = Finite 2, currentPrice = Finite 3,
         change = Finite 1, changePercent = Finite 50\<rparr>]"
    by (simp add: klineOf_def js_defs)
  have "kl_s otherKline \<noteq> kl_s (klineOf (Finite 2))"
    by (simp add: otherKline_def klineOf_def)
  with U have d: "klineChanges (klineOf (Finite 2)) (handleKlineData otherKline
        (handleKlineData (klineOf (Finite 1)) newService)) = []"
    by blast
  from h1 a b c d show ?thesis by blast
qed

end
